theory Spec2Isabelle
  imports Complex_Main
begin

section \<open>Python values used by the handlers\<close>

text \<open>
  A Python \<open>str\<close> is a sequence of Unicode code points, so it is modelled as a list
  of naturals (the code points), not as a list of 8-bit characters. \<open>py\<close> turns
  an ASCII literal of the source into such a string.
\<close>

type_synonym pystr = "nat list"

definition py :: "string \<Rightarrow> pystr" where
  "py s = map of_char s"

text \<open>
  The argument of \<open>sanitize_input\<close> is either \<open>None\<close> or a \<open>str\<close>: these are the
  only values the handlers and the specification pass to it.
\<close>

datatype pyval = PyNone | PyStr pystr

text \<open>
  Exceptions are values: a class and the text \<open>str(e)\<close>. Every exception of the
  model is an instance of \<open>Exception\<close>, which is what the handlers' \<open>except\<close>
  clauses catch; asynchronous \<open>BaseException\<close>s (\<open>KeyboardInterrupt\<close>,
  \<open>SystemExit\<close>) are outside the model.
\<close>

datatype exn_class =
  RequestEntityTooLarge | AuthenticationError | RateLimitError | APIError
  | ValueError | KeyError | IndexError | AttributeError | NameError | OtherError

datatype exn = Exn exn_class pystr

text \<open>
  The texts of three exceptions of the libraries: the 413 of werkzeug, the
  \<open>KeyError\<close> of a cache read (the \<open>repr\<close> of the key, a hex digest in single
  quotes), and the \<open>AttributeError\<close> of \<open>None.strip()\<close>.
\<close>

definition too_large_text :: pystr where
  "too_large_text =
     py ''413 Request Entity Too Large: The data value transmitted exceeds the capacity limit.''"

definition key_error_text :: "pystr \<Rightarrow> pystr" where
  "key_error_text k = [0x27] @ k @ [0x27]"

definition none_strip_text :: pystr where
  "none_strip_text =
     [0x27] @ py ''NoneType'' @ [0x27] @ py '' object has no attribute '' @ [0x27] @ py ''strip'' @ [0x27]"

fun exn_class_of :: "exn \<Rightarrow> exn_class" where
  "exn_class_of (Exn k m) = k"

fun str_exn :: "exn \<Rightarrow> pystr" where
  "str_exn (Exn k m) = m"

text \<open>The JSON values the handlers pass to \<open>jsonify\<close>; a dict keeps its items in order.\<close>

datatype json = JNull | JBool bool | JNum int | JStr pystr | JObj "(pystr \<times> json) list"

fun json_get :: "json \<Rightarrow> pystr \<Rightarrow> json option" where
  "json_get (JObj items) k = map_of items k"
| "json_get j k = None"

text \<open>\<open>d[k] = v\<close> on a dict: the item is replaced in place, or appended.\<close>

fun items_set :: "(pystr \<times> json) list \<Rightarrow> pystr \<Rightarrow> json \<Rightarrow> (pystr \<times> json) list" where
  "items_set [] k v = [(k, v)]"
| "items_set ((k', v') # items) k v =
     (if k' = k then (k, v) # items else (k', v') # items_set items k v)"

fun dict_set :: "json \<Rightarrow> pystr \<Rightarrow> json \<Rightarrow> json" where
  "dict_set (JObj items) k v = JObj (items_set items k v)"
| "dict_set j k v = j"

text \<open>A response is the \<open>jsonify\<close> body with its HTTP status (200 when none is given).\<close>

type_synonym response = "json \<times> nat"

definition error_json :: "string \<Rightarrow> json" where
  "error_json msg = JObj [(py ''error'', JStr (py msg))]"

subsection \<open>String methods\<close>

text \<open>
  \<open>str.isspace\<close> per code point: the Unicode white space of CPython
  (\<open>_PyUnicode_IsWhitespace\<close>). \<open>str.strip()\<close> removes it from both ends.
\<close>

definition isspace :: "nat \<Rightarrow> bool" where
  "isspace c \<longleftrightarrow>
     (0x09 \<le> c \<and> c \<le> 0x0D) \<or> (0x1C \<le> c \<and> c \<le> 0x20) \<or> c = 0x85 \<or> c = 0xA0
     \<or> c = 0x1680 \<or> (0x2000 \<le> c \<and> c \<le> 0x200A) \<or> c = 0x2028 \<or> c = 0x2029
     \<or> c = 0x202F \<or> c = 0x205F \<or> c = 0x3000"

definition str_strip :: "pystr \<Rightarrow> pystr" where
  "str_strip s = rev (dropWhile isspace (rev (dropWhile isspace s)))"

text \<open>
  \<open>str.lower()\<close>, modelled on ASCII. The handlers only compare its result with
  \<open>'pdf'\<close> and \<open>'.pdf'\<close>, and no code point outside ASCII lowers to one of
  \<open>p\<close>, \<open>d\<close>, \<open>f\<close> or the full stop, so these comparisons are decided by the
  ASCII letters alone.
\<close>

definition lower_char :: "nat \<Rightarrow> nat" where
  "lower_char c = (if 0x41 \<le> c \<and> c \<le> 0x5A then c + 32 else c)"

definition str_lower :: "pystr \<Rightarrow> pystr" where
  "str_lower s = map lower_char s"

definition str_endswith :: "pystr \<Rightarrow> pystr \<Rightarrow> bool" where
  "str_endswith s suffix \<longleftrightarrow>
     length suffix \<le> length s \<and> drop (length s - length suffix) s = suffix"

fun str_join :: "pystr \<Rightarrow> pystr list \<Rightarrow> pystr" where
  "str_join sep [] = []"
| "str_join sep [x] = x"
| "str_join sep (x # y # ys) = x @ sep @ str_join sep (y # ys)"

section \<open>Constants and helper functions (\<open>app_new.py\<close> 19--98, \<open>app.py\<close> 18--85)\<close>

definition MAX_CONTENT_LENGTH :: nat where
  "MAX_CONTENT_LENGTH = 16 * 1024 * 1024"

definition ALLOWED_EXTENSIONS :: "pystr list" where
  "ALLOWED_EXTENSIONS = [py ''pdf'']"

definition full_stop :: nat where
  "full_stop = 0x2E"

text \<open>
  \<^verbatim>\<open>
  def allowed_file(filename):
      return '.' in filename and \
             filename.rsplit('.', 1)[1].lower() in app.config['ALLOWED_EXTENSIONS']
  \<close>
  \<open>rsplit('.', 1)[1]\<close> is what follows the last full stop.
\<close>

definition after_last_dot :: "pystr \<Rightarrow> pystr" where
  "after_last_dot s = rev (takeWhile (\<lambda>c. c \<noteq> full_stop) (rev s))"

definition allowed_file :: "pystr \<Rightarrow> bool" where
  "allowed_file filename \<longleftrightarrow>
     full_stop \<in> set filename \<and> str_lower (after_last_dot filename) \<in> set ALLOWED_EXTENSIONS"

text \<open>
  \<^verbatim>\<open>
  def sanitize_input(text):
      if not text:
          return ""
      return re.sub(r'[^\x20-\x7E\n]', '', str(text))
  \<close>
  The character class keeps the code points \<open>0x20 .. 0x7E\<close> and the newline
  \<open>0x0A\<close>; every other code point is replaced by the empty string.
\<close>

definition kept_by_regex :: "nat \<Rightarrow> bool" where
  "kept_by_regex c \<longleftrightarrow> (0x20 \<le> c \<and> c \<le> 0x7E) \<or> c = 0x0A"

fun sanitize_input :: "pyval \<Rightarrow> pystr" where
  "sanitize_input PyNone = []"
| "sanitize_input (PyStr s) = (if s = [] then [] else filter kept_by_regex s)"

text \<open>
  \<^verbatim>\<open>
  def generate_cache_key(*args):
      return hashlib.md5(json.dumps(args, sort_keys=True).encode()).hexdigest()
  \<close>
  \<open>json.dumps\<close> of a tuple of strings is a JSON array with the default separators
  and \<open>ensure_ascii\<close>: the quotation mark, the backslash and the control characters
  are escaped, and every code point outside \<open>0x20 .. 0x7E\<close> is written
  \<open>\uXXXX\<close> (a surrogate pair beyond the basic plane). The result is ASCII, so
  \<open>encode()\<close> changes nothing. MD5 is a library function: the composition
  \<open>hashlib.md5(...).hexdigest()\<close> is the parameter \<open>md5_hexdigest\<close>.
\<close>

definition hex_digit :: "nat \<Rightarrow> nat" where
  "hex_digit d = (if d < 10 then 0x30 + d else 0x61 + (d - 10))"

definition hex4 :: "nat \<Rightarrow> pystr" where
  "hex4 n = map hex_digit [n div 4096 mod 16, n div 256 mod 16, n div 16 mod 16, n mod 16]"

definition json_escape_char :: "nat \<Rightarrow> pystr" where
  "json_escape_char c =
     (if c = 0x22 then [0x5C, 0x22]
      else if c = 0x5C then [0x5C, 0x5C]
      else if c = 0x0A then [0x5C, 0x6E]
      else if c = 0x0D then [0x5C, 0x72]
      else if c = 0x09 then [0x5C, 0x74]
      else if c = 0x08 then [0x5C, 0x62]
      else if c = 0x0C then [0x5C, 0x66]
      else if 0x20 \<le> c \<and> c \<le> 0x7E then [c]
      else if c < 0x10000 then [0x5C, 0x75] @ hex4 c
      else [0x5C, 0x75] @ hex4 (0xD800 + ((c - 0x10000) div 1024) mod 1024)
           @ [0x5C, 0x75] @ hex4 (0xDC00 + (c - 0x10000) mod 1024))"

definition json_dumps_str :: "pystr \<Rightarrow> pystr" where
  "json_dumps_str s = [0x22] @ concat (map json_escape_char s) @ [0x22]"

definition json_dumps :: "pystr list \<Rightarrow> pystr" where
  "json_dumps args = [0x5B] @ str_join (py '', '') (map json_dumps_str args) @ [0x5D]"

definition generate_cache_key :: "(pystr \<Rightarrow> pystr) \<Rightarrow> pystr list \<Rightarrow> pystr" where
  "generate_cache_key md5_hexdigest args = md5_hexdigest (json_dumps args)"

section \<open>The environment of a request\<close>

text \<open>
  An upload is a \<open>FileStorage\<close>: the declared file name and the bytes. A request
  carries its \<open>Content-Length\<close>, the multipart file fields and the form fields.
  \<open>parser_limits_exceeded\<close> says whether the body is above one of the other limits
  of the framework's form parser: the length of a form field
  (\<open>max_form_memory_size\<close>), the number of parts (\<open>max_form_parts\<close>), or the
  length of a body sent without a \<open>Content-Length\<close>. The application does not set
  these limits, so they are those of the installed Werkzeug (500 000 bytes and 1000
  parts in Werkzeug 3.1), and the model leaves them open.
\<close>

record upload =
  filename :: pystr
  data :: "nat list"

record request =
  content_length :: nat
  parser_limits_exceeded :: bool
  files :: "(pystr \<times> upload) list"
  form :: "(pystr \<times> pystr) list"

text \<open>
  The form data is parsed when it is first accessed; in both handlers that is
  \<open>request.files\<close>, inside the \<open>try\<close>. The parser raises
  \<open>RequestEntityTooLarge\<close> for a \<open>Content-Length\<close> above the configured
  \<open>MAX_CONTENT_LENGTH\<close> and for a body above one of its other limits. A malformed
  body is not an error for it (the parser is silent): the form and the files are
  then empty. A connection that breaks while the body is read is outside the model.
\<close>

definition request_too_large :: "request \<Rightarrow> bool" where
  "request_too_large req \<longleftrightarrow>
     MAX_CONTENT_LENGTH < content_length req \<or> parser_limits_exceeded req"

definition request_files :: "request \<Rightarrow> exn + (pystr \<times> upload) list" where
  "request_files req =
     (if request_too_large req
      then Inl (Exn RequestEntityTooLarge too_large_text)
      else Inr (files req))"

definition form_get :: "request \<Rightarrow> pystr \<Rightarrow> pystr \<Rightarrow> pystr" where
  "form_get req k dflt = (case map_of (form req) k of None \<Rightarrow> dflt | Some v \<Rightarrow> v)"

text \<open>
  The chat completion call of the OpenAI client: what is sent, and what comes back
  (the message content of each choice, which may be \<open>None\<close>, the model name and
  the usage counters).
\<close>

record chat_request =
  cr_model :: pystr
  cr_messages :: "(pystr \<times> pystr) list"
  cr_max_tokens :: nat
  cr_temperature :: real

record chat_response =
  choices :: "pystr option list"
  response_model :: pystr
  usage :: "(pystr \<times> int) list"

text \<open>
  The external collaborators of one request: the PDF library (the pages of
  \<open>PdfReader(pdf_file)\<close>, each with the outcome of \<open>extract_text()\<close>), the
  completion service, and the readings of the cache's clock at the membership
  test, at the read and at the write.
\<close>

type_synonym page = "exn + pystr option"

record env =
  pdf_reader :: "nat list \<Rightarrow> exn + page list"
  chat_completion :: "chat_request \<Rightarrow> exn + chat_response"
  t_contains :: real
  t_getitem :: real
  t_setitem :: real

text \<open>What a request does besides answering: calls of the collaborators, log lines.\<close>

datatype event =
  ExtractCall "nat list" | CompletionCall chat_request
  | LogInfo pystr | LogError pystr | Print pystr

fun is_completion_call :: "event \<Rightarrow> bool" where
  "is_completion_call (CompletionCall rq) = True"
| "is_completion_call e = False"

fun is_extract_call :: "event \<Rightarrow> bool" where
  "is_extract_call (ExtractCall d) = True"
| "is_extract_call e = False"

section \<open>The response cache: \<open>TTLCache(maxsize=100, ttl=300)\<close>\<close>

text \<open>
  The cache of the \<open>cachetools\<close> library, as documented: each item expires \<open>ttl\<close>
  seconds after it was stored; an expired item is absent for \<open>in\<close> and \<open>[]\<close> and
  is removed by the next write; a write into a full cache evicts the least
  recently used items. The list holds the items, least recently used first, each
  with its expiry time.
\<close>

type_synonym cache = "(pystr \<times> json \<times> real) list"

definition cache_maxsize :: nat where
  "cache_maxsize = 100"

definition cache_ttl :: real where
  "cache_ttl = 300"

definition cache_contains :: "cache \<Rightarrow> real \<Rightarrow> pystr \<Rightarrow> bool" where
  "cache_contains c now k =
     (case map_of c k of None \<Rightarrow> False | Some (v, expires) \<Rightarrow> now < expires)"

definition move_to_end :: "pystr \<Rightarrow> json \<times> real \<Rightarrow> cache \<Rightarrow> cache" where
  "move_to_end k item c = filter (\<lambda>e. fst e \<noteq> k) c @ [(k, item)]"

definition cache_getitem :: "cache \<Rightarrow> real \<Rightarrow> pystr \<Rightarrow> (exn + json) \<times> cache" where
  "cache_getitem c now k =
     (case map_of c k of
        None \<Rightarrow> (Inl (Exn KeyError (key_error_text k)), c)
      | Some (v, expires) \<Rightarrow>
          (if now < expires then Inr v else Inl (Exn KeyError (key_error_text k)),
           move_to_end k (v, expires) c))"

definition expire :: "real \<Rightarrow> cache \<Rightarrow> cache" where
  "expire now c = filter (\<lambda>e. now < snd (snd e)) c"

definition cache_setitem :: "cache \<Rightarrow> real \<Rightarrow> pystr \<Rightarrow> json \<Rightarrow> cache" where
  "cache_setitem c now k v =
     (let c1 = expire now c;
          c2 = (if k \<in> fst ` set c1 then c1 else drop (length c1 + 1 - cache_maxsize) c1)
      in move_to_end k (v, now + cache_ttl) c2)"

section \<open>\<open>app_new.py\<close>: the handler \<open>generate_irac\<close>\<close>

text \<open>
  \<open>extract_text_from_pdf\<close> (lines 88--98): the page texts are concatenated, a page
  without text counts as \<open>""\<close>; any exception is logged and replaced by
  \<open>ValueError("Failed to extract text from PDF")\<close>.
\<close>

fun concat_pages :: "page list \<Rightarrow> pystr \<Rightarrow> exn + pystr" where
  "concat_pages [] text = Inr text"
| "concat_pages (Inl e # pages) text = Inl e"
| "concat_pages (Inr None # pages) text = concat_pages pages text"
| "concat_pages (Inr (Some t) # pages) text = concat_pages pages (text @ t)"

definition read_pdf :: "env \<Rightarrow> nat list \<Rightarrow> exn + pystr" where
  "read_pdf env pdf_file =
     (case pdf_reader env pdf_file of Inl e \<Rightarrow> Inl e | Inr pages \<Rightarrow> concat_pages pages [])"

definition extract_text_from_pdf :: "env \<Rightarrow> nat list \<Rightarrow> (exn + pystr) \<times> event list" where
  "extract_text_from_pdf env pdf_file =
     (case read_pdf env pdf_file of
        Inr text \<Rightarrow> (Inr text, [ExtractCall pdf_file])
      | Inl e \<Rightarrow>
          (Inl (Exn ValueError (py ''Failed to extract text from PDF'')),
           [ExtractCall pdf_file, LogError (py ''Error extracting text from PDF: '' @ str_exn e)]))"

text \<open>
  The two prompt templates of lines 170--199, with the text of the f-strings as it
  stands in the source (the continuation lines keep their indentation).
\<close>

definition law_student_prompt :: "pystr \<Rightarrow> pystr \<Rightarrow> pystr" where
  "law_student_prompt case_name text =
     py ''Generate a detailed IRAC analysis for the following case: '' @ case_name
     @ py ''\<newline>            \<newline>            '' @ text
     @ py ''\<newline>            \<newline>            Please structure your response with these sections:''
     @ py ''\<newline>            1. Case Citation\<newline>            2. Procedural History''
     @ py ''\<newline>            3. Issues\<newline>            4. Rules\<newline>            5. Analysis''
     @ py ''\<newline>            6. Conclusion\<newline>            7. Significance''
     @ py ''\<newline>            8. Related Cases\<newline>            \<newline>            ''
     @ py ''Include proper legal citations and analysis.''"

definition paralegal_prompt :: "pystr \<Rightarrow> pystr \<Rightarrow> pystr" where
  "paralegal_prompt case_name text =
     py ''Create a concise case summary for '' @ case_name
     @ py '' with these sections:\<newline>            \<newline>            '' @ text
     @ py ''\<newline>            \<newline>            1. Case Citation\<newline>            2. Key Facts''
     @ py ''\<newline>            3. Holding\<newline>            4. Rule of Law''
     @ py ''\<newline>            5. Practical Implications\<newline>            6. Checklist for Use''
     @ py ''\<newline>            \<newline>            ''
     @ py ''Focus on practical applications and use bullet points for readability.''"

definition build_prompt :: "pystr \<Rightarrow> pystr \<Rightarrow> pystr \<Rightarrow> pystr" where
  "build_prompt role case_name text =
     (if role = py ''law_student'' then law_student_prompt case_name text
      else paralegal_prompt case_name text)"

definition chat_request_new :: "pystr \<Rightarrow> chat_request" where
  "chat_request_new prompt =
     \<lparr>cr_model = py ''gpt-4'',
      cr_messages = [(py ''system'', py ''You are a legal expert providing case analysis.''),
                     (py ''user'', prompt)],
      cr_max_tokens = 2000,
      cr_temperature = 0.3\<rparr>"

text \<open>
  Lines 201--228: the completion call, the result dict, the write to the cache.
  The cache holds the very dict that line 222 assigns to, so the stored value is the
  dict after that assignment. Every exception of this block gives the 500 of line
  228.
\<close>

definition result_dict :: "pystr option \<Rightarrow> chat_response \<Rightarrow> json" where
  "result_dict content resp =
     JObj [(py ''analysis'', case content of None \<Rightarrow> JNull | Some s \<Rightarrow> JStr s),
           (py ''model'', JStr (response_model resp)),
           (py ''usage'', JObj (map (\<lambda>item. (fst item, JNum (snd item))) (usage resp))),
           (py ''cached'', JBool False)]"

definition call_openai ::
  "env \<Rightarrow> cache \<Rightarrow> pystr \<Rightarrow> pystr \<Rightarrow> event list \<Rightarrow> (exn + response) \<times> cache \<times> event list" where
  "call_openai env c cache_key prompt evs =
     (let rq = chat_request_new prompt;
          failed = (\<lambda>e. (Inr (error_json ''Error generating analysis. Please try again later.'', 500),
                         c, evs @ [CompletionCall rq, LogError (py ''OpenAI API error: '' @ str_exn e)]))
      in case chat_completion env rq of
           Inl e \<Rightarrow> failed e
         | Inr resp \<Rightarrow>
             (case choices resp of
                [] \<Rightarrow> failed (Exn IndexError (py ''list index out of range''))
              | content # others \<Rightarrow>
                  (let result = dict_set (result_dict content resp) (py ''cached'') (JBool False)
                   in (Inr (result, 200), cache_setitem c (t_setitem env) cache_key result,
                       evs @ [CompletionCall rq]))))"

text \<open>Lines 161--199: extraction, the empty-text check, the prompt.\<close>

definition cache_miss ::
  "env \<Rightarrow> cache \<Rightarrow> pystr \<Rightarrow> pystr \<Rightarrow> pystr \<Rightarrow> nat list \<Rightarrow> (exn + response) \<times> cache \<times> event list" where
  "cache_miss env c cache_key role case_name pdf_file =
     (case extract_text_from_pdf env pdf_file of
        (Inl e, evs) \<Rightarrow>
          (Inr (error_json ''Error processing PDF file'', 400), c,
           evs @ [LogError (py ''PDF processing error: '' @ str_exn e)])
      | (Inr text, evs) \<Rightarrow>
          if str_strip text = []
          then (Inr (error_json ''The uploaded PDF appears to be empty or could not be read'', 400),
                c, evs)
          else call_openai env c cache_key (build_prompt role case_name text) evs)"

text \<open>Lines 156--159: the cached value is returned as it is stored.\<close>

definition cache_hit :: "env \<Rightarrow> cache \<Rightarrow> pystr \<Rightarrow> (exn + response) \<times> cache \<times> event list" where
  "cache_hit env c cache_key =
     (case cache_getitem c (t_getitem env) cache_key of
        (Inl e, c') \<Rightarrow> (Inl e, c', [LogInfo (py ''Cache hit'')])
      | (Inr v, c') \<Rightarrow> (Inr (v, 200), c', [LogInfo (py ''Cache hit'')]))"

text \<open>Lines 150--154: the role, the sanitized case name, the cache key.\<close>

definition role_of :: "request \<Rightarrow> pystr" where
  "role_of req = form_get req (py ''role'') (py ''law_student'')"

definition case_name_of :: "request \<Rightarrow> pystr" where
  "case_name_of req = sanitize_input (PyStr (form_get req (py ''case_name'') (py ''Unnamed Case'')))"

definition cache_key_of :: "(pystr \<Rightarrow> pystr) \<Rightarrow> upload \<Rightarrow> request \<Rightarrow> pystr" where
  "cache_key_of md5_hexdigest file req =
     generate_cache_key md5_hexdigest [filename file, role_of req, case_name_of req]"

text \<open>
  The body of the \<open>try\<close> of lines 134--228: a response, or an exception for the
  \<open>except\<close> clauses of lines 230--234. The rate limiter of line 132 acts before the
  handler is called and is not part of it.
\<close>

definition generate_irac_try ::
  "(pystr \<Rightarrow> pystr) \<Rightarrow> env \<Rightarrow> request \<Rightarrow> cache \<Rightarrow> (exn + response) \<times> cache \<times> event list" where
  "generate_irac_try md5_hexdigest env req c =
     (case request_files req of
        Inl e \<Rightarrow> (Inl e, c, [])
      | Inr fs \<Rightarrow>
          (case map_of fs (py ''file'') of
             None \<Rightarrow> (Inr (error_json ''No file part'', 400), c, [])
           | Some file \<Rightarrow>
               if filename file = [] then (Inr (error_json ''No selected file'', 400), c, [])
               else if \<not> allowed_file (filename file)
               then (Inr (error_json ''Invalid file type. Only PDF files are allowed.'', 400), c, [])
               else if cache_contains c (t_contains env) (cache_key_of md5_hexdigest file req)
               then cache_hit env c (cache_key_of md5_hexdigest file req)
               else cache_miss env c (cache_key_of md5_hexdigest file req)
                      (role_of req) (case_name_of req) (data file)))"

record outcome =
  response :: response
  cache_after :: cache
  events :: "event list"

definition generate_irac :: "(pystr \<Rightarrow> pystr) \<Rightarrow> env \<Rightarrow> request \<Rightarrow> cache \<Rightarrow> outcome" where
  "generate_irac md5_hexdigest env req c =
     (case generate_irac_try md5_hexdigest env req c of
        (Inr r, c', evs) \<Rightarrow> \<lparr>response = r, cache_after = c', events = evs\<rparr>
      | (Inl e, c', evs) \<Rightarrow>
          if exn_class_of e = RequestEntityTooLarge
          then \<lparr>response = (error_json ''File too large'', 413), cache_after = c', events = evs\<rparr>
          else \<lparr>response = (error_json ''An unexpected error occurred'', 500), cache_after = c',
                events = evs @ [LogError (py ''Unexpected error: '' @ str_exn e)]\<rparr>)"

section \<open>\<open>app.py\<close>: the handler \<open>generate_irac\<close>\<close>

text \<open>
  \<open>extract_text_from_pdf\<close> (lines 122--129): the page texts are joined by a space;
  any exception is printed and the result is \<open>""\<close>. The module imports \<open>PyPDF2\<close>
  but not the name \<open>PdfReader\<close>, so as the file stands the call raises
  \<open>NameError\<close>: one of the outcomes of \<open>pdf_reader\<close>.
\<close>

fun page_texts :: "page list \<Rightarrow> exn + pystr list" where
  "page_texts [] = Inr []"
| "page_texts (Inl e # pages) = Inl e"
| "page_texts (Inr t # pages) =
     (case page_texts pages of
        Inl e \<Rightarrow> Inl e
      | Inr ts \<Rightarrow> Inr ((case t of None \<Rightarrow> [] | Some s \<Rightarrow> s) # ts))"

definition app_py_extract_text_from_pdf :: "env \<Rightarrow> nat list \<Rightarrow> pystr \<times> event list" where
  "app_py_extract_text_from_pdf env pdf_file =
     (case (case pdf_reader env pdf_file of Inl e \<Rightarrow> Inl e | Inr pages \<Rightarrow> page_texts pages) of
        Inr texts \<Rightarrow> (str_join [0x20] texts, [ExtractCall pdf_file])
      | Inl e \<Rightarrow> ([], [ExtractCall pdf_file, Print (py ''PDF Error: '' @ str_exn e)]))"

text \<open>The prompt of lines 153--160; \<open>case_text[:3000]\<close> is \<open>take 3000\<close>.\<close>

definition app_py_prompt :: "pystr \<Rightarrow> pystr \<Rightarrow> pystr \<Rightarrow> pystr" where
  "app_py_prompt case_name role case_text =
     py ''Create an IRAC (Issue, Rule, Analysis, Conclusion) summary for this legal case.''
     @ py ''\<newline>        Case: '' @ case_name
     @ py ''\<newline>        Role: '' @ role
     @ py ''\<newline>        \<newline>        '' @ take 3000 case_text
     @ py ''\<newline>        \<newline>        Provide a clear IRAC analysis in plain text.\<newline>        ''"

definition app_py_chat_request :: "pystr \<Rightarrow> chat_request" where
  "app_py_chat_request prompt =
     \<lparr>cr_model = py ''gpt-3.5-turbo'',
      cr_messages = [(py ''user'', prompt)],
      cr_max_tokens = 500,
      cr_temperature = 0.3\<rparr>"

text \<open>
  How a statement of the function body ends: with a \<open>return\<close>, or by falling
  through to the statement after it.
\<close>

datatype completion = Returns response | Falls_through

text \<open>
  Lines 162--170: the completion call and the \<open>return\<close> of the summary. An empty
  list of choices and a content of \<open>None\<close> raise (\<open>IndexError\<close>, and
  \<open>AttributeError\<close> on \<open>.strip()\<close>).
\<close>

definition app_py_complete :: "env \<Rightarrow> pystr \<Rightarrow> event list \<Rightarrow> (exn + completion) \<times> event list" where
  "app_py_complete env prompt evs =
     (let rq = app_py_chat_request prompt
      in case chat_completion env rq of
           Inl e \<Rightarrow> (Inl e, evs @ [CompletionCall rq])
         | Inr resp \<Rightarrow>
             (case choices resp of
                [] \<Rightarrow> (Inl (Exn IndexError (py ''list index out of range'')), evs @ [CompletionCall rq])
              | None # others \<Rightarrow>
                  (Inl (Exn AttributeError (none_strip_text)),
                   evs @ [CompletionCall rq])
              | Some s # others \<Rightarrow>
                  (Inr (Returns (JObj [(py ''summary'', JStr (str_strip s))], 200)),
                   evs @ [CompletionCall rq])))"

text \<open>
  The body of the \<open>try\<close> of lines 133--170. The docket number read on line 150 is
  not used by these lines.
\<close>

definition app_py_try_body :: "env \<Rightarrow> request \<Rightarrow> (exn + completion) \<times> event list" where
  "app_py_try_body env req =
     (case request_files req of
        Inl e \<Rightarrow> (Inl e, [])
      | Inr fs \<Rightarrow>
          (case map_of fs (py ''pdf'') of
             None \<Rightarrow> (Inr (Returns (error_json ''No file provided'', 400)), [])
           | Some pdf \<Rightarrow>
               if \<not> str_endswith (str_lower (filename pdf)) (py ''.pdf'')
               then (Inr (Returns (error_json ''File must be a PDF'', 400)), [])
               else
                 (case app_py_extract_text_from_pdf env (data pdf) of
                    (case_text, evs) \<Rightarrow>
                      if str_strip case_text = []
                      then (Inr (Returns (error_json ''Could not read PDF content'', 400)), evs)
                      else app_py_complete env
                             (app_py_prompt (form_get req (py ''caseName'') (py ''Case''))
                                (form_get req (py ''role'') (py ''student'')) case_text)
                             evs)))"

text \<open>The \<open>try\<close> statement of lines 133--174, with its \<open>except Exception\<close> clause.\<close>

definition app_py_try_stmt :: "env \<Rightarrow> request \<Rightarrow> completion \<times> event list" where
  "app_py_try_stmt env req =
     (case app_py_try_body env req of
        (Inr k, evs) \<Rightarrow> (k, evs)
      | (Inl e, evs) \<Rightarrow>
          (Returns (error_json ''Failed to process request'', 500),
           evs @ [Print (py ''Error: '' @ str_exn e)]))"

text \<open>
  The function body is the \<open>try\<close> statement followed by lines 176--345. Those
  lines are not well-formed Python (an \<open>else\<close> and an \<open>except\<close> without their
  \<open>if\<close> and \<open>try\<close>), so they are not transcribed: \<open>rest\<close> stands for whatever
  runs after the \<open>try\<close> statement, and the function is modelled for every \<open>rest\<close>.
\<close>

definition app_py_generate_irac ::
  "(env \<Rightarrow> request \<Rightarrow> response \<times> event list) \<Rightarrow> env \<Rightarrow> request \<Rightarrow> response \<times> event list" where
  "app_py_generate_irac rest env req =
     (case app_py_try_stmt env req of
        (Returns r, evs) \<Rightarrow> (r, evs)
      | (Falls_through, evs) \<Rightarrow> (case rest env req of (r, evs') \<Rightarrow> (r, evs @ evs')))"

section \<open>Notions used to state the properties\<close>

text \<open>
  The upload checks of \<open>app_new.py\<close> all pass: the form parser accepts the body
  (line 136), and the checks of lines 136--147.
\<close>

definition passes_validation :: "request \<Rightarrow> upload \<Rightarrow> bool" where
  "passes_validation req file \<longleftrightarrow>
     \<not> request_too_large req
     \<and> map_of (files req) (py ''file'') = Some file
     \<and> allowed_file (filename file)"

text \<open>
  The upload checks of \<open>app.py\<close> all pass: the form parser accepts the body
  (line 135), and the checks of lines 135--140.
\<close>

definition app_py_passes_validation :: "request \<Rightarrow> upload \<Rightarrow> bool" where
  "app_py_passes_validation req pdf \<longleftrightarrow>
     \<not> request_too_large req
     \<and> map_of (files req) (py ''pdf'') = Some pdf
     \<and> str_endswith (str_lower (filename pdf)) (py ''.pdf'')"

text \<open>
  The document cannot be read: extraction fails, or the extracted text is empty
  or white space only.
\<close>

definition unreadable :: "env \<Rightarrow> nat list \<Rightarrow> bool" where
  "unreadable env pdf_file \<longleftrightarrow>
     (case read_pdf env pdf_file of Inl e \<Rightarrow> True | Inr text \<Rightarrow> str_strip text = [])"

definition no_completion_call :: "event list \<Rightarrow> bool" where
  "no_completion_call evs \<longleftrightarrow> filter is_completion_call evs = []"

definition no_extract_call :: "event list \<Rightarrow> bool" where
  "no_extract_call evs \<longleftrightarrow> filter is_extract_call evs = []"

text \<open>The prompts sent to the completion service, in order.\<close>

fun prompts_sent :: "event list \<Rightarrow> pystr list" where
  "prompts_sent [] = []"
| "prompts_sent (CompletionCall rq # evs) = map snd (cr_messages rq) @ prompts_sent evs"
| "prompts_sent (e # evs) = prompts_sent evs"

text \<open>
  The states of the response cache of a running server: empty at start, then
  changed by requests only.
\<close>

inductive reachable :: "(pystr \<Rightarrow> pystr) \<Rightarrow> cache \<Rightarrow> bool" for md5_hexdigest where
  start: "reachable md5_hexdigest []"
| request: "reachable md5_hexdigest c \<Longrightarrow>
            reachable md5_hexdigest (cache_after (generate_irac md5_hexdigest env req c))"

text \<open>The same environment, with the text of every exception rewritten by \<open>g\<close>.\<close>

fun map_exn :: "(pystr \<Rightarrow> pystr) \<Rightarrow> exn \<Rightarrow> exn" where
  "map_exn g (Exn k m) = Exn k (g m)"

definition map_page :: "(pystr \<Rightarrow> pystr) \<Rightarrow> page \<Rightarrow> page" where
  "map_page g p = (case p of Inl e \<Rightarrow> Inl (map_exn g e) | Inr t \<Rightarrow> Inr t)"

definition with_exception_texts :: "(pystr \<Rightarrow> pystr) \<Rightarrow> env \<Rightarrow> env" where
  "with_exception_texts g env =
     env\<lparr>pdf_reader :=
           (\<lambda>d. case pdf_reader env d of
                  Inl e \<Rightarrow> Inl (map_exn g e)
                | Inr pages \<Rightarrow> Inr (map (map_page g) pages)),
         chat_completion :=
           (\<lambda>rq. case chat_completion env rq of
                   Inl e \<Rightarrow> Inl (map_exn g e)
                 | Inr resp \<Rightarrow> Inr resp)\<rparr>"

text \<open>The fixed error messages of the two handlers.\<close>

definition error_messages :: "string list" where
  "error_messages =
     [''No file part'', ''No selected file'', ''Invalid file type. Only PDF files are allowed.'',
      ''The uploaded PDF appears to be empty or could not be read'',
      ''Error processing PDF file'', ''Error generating analysis. Please try again later.'',
      ''File too large'', ''An unexpected error occurred'']"

definition app_py_error_messages :: "string list" where
  "app_py_error_messages =
     [''No file provided'', ''File must be a PDF'', ''Could not read PDF content'',
      ''Failed to process request'']"

subsection \<open>A concrete request and environment\<close>

text \<open>
  A one-page PDF named \<open>smith.pdf\<close>, a completion service that answers, and a
  stand-in for MD5 (the JSON text itself), used to evaluate the handlers.
\<close>

definition smith_upload :: upload where
  "smith_upload = \<lparr>filename = py ''smith.pdf'', data = [0x25, 0x50, 0x44, 0x46]\<rparr>"

definition smith_request :: request where
  "smith_request =
     \<lparr>content_length = 2048, parser_limits_exceeded = False,
      files = [(py ''file'', smith_upload)],
      form = [(py ''role'', py ''law_student''), (py ''case_name'', py ''Smith v. Jones'')]\<rparr>"

definition smith_answer :: chat_response where
  "smith_answer =
     \<lparr>choices = [Some (py ''## ISSUE'')], response_model = py ''gpt-4'',
      usage = [(py ''total_tokens'', 42)]\<rparr>"

definition smith_env :: env where
  "smith_env =
     \<lparr>pdf_reader = (\<lambda>d. Inr [Inr (Some (py ''Smith v. Jones, 123 U.S. 456 (2020).''))]),
      chat_completion = (\<lambda>rq. Inr smith_answer),
      t_contains = 10, t_getitem = 10, t_setitem = 11\<rparr>"

definition stub_md5 :: "pystr \<Rightarrow> pystr" where
  "stub_md5 s = s"

text \<open>The same server later, within the five minutes of the cache.\<close>

definition smith_later :: env where
  "smith_later = smith_env\<lparr>t_contains := 100, t_getitem := 100, t_setitem := 101\<rparr>"

text \<open>The same upload in a request body above the size limit.\<close>

definition oversized_request :: request where
  "oversized_request = smith_request\<lparr>content_length := MAX_CONTENT_LENGTH + 1\<rparr>"

text \<open>
  A request that the form parser rejects although its \<open>Content-Length\<close> is far
  below the size limit: one of its form fields is above the parser's limit, say.
\<close>

definition long_field_request :: request where
  "long_field_request = smith_request\<lparr>parser_limits_exceeded := True\<rparr>"

text \<open>An upload of more than 16 MiB under the same file name.\<close>

definition huge_upload :: upload where
  "huge_upload = \<lparr>filename = py ''smith.pdf'', data = replicate (MAX_CONTENT_LENGTH + 1) 0\<rparr>"

definition huge_request :: request where
  "huge_request =
     \<lparr>content_length = MAX_CONTENT_LENGTH + 300, parser_limits_exceeded = False,
      files = [(py ''file'', huge_upload)], form = []\<rparr>"

text \<open>A text file.\<close>

definition brief_request :: request where
  "brief_request =
     \<lparr>content_length = 2048, parser_limits_exceeded = False,
      files = [(py ''file'', \<lparr>filename = py ''brief.txt'', data = [0x68, 0x69]\<rparr>)],
      form = []\<rparr>"

text \<open>A PDF library that cannot parse the document.\<close>

definition corrupt_later :: env where
  "corrupt_later =
     smith_later\<lparr>pdf_reader := (\<lambda>d. Inl (Exn OtherError (py ''EOF marker not found'')))\<rparr>"

text \<open>A completion service that rejects the API key.\<close>

definition auth_failure_env :: env where
  "auth_failure_env =
     smith_env\<lparr>chat_completion :=
                 (\<lambda>rq. Inl (Exn AuthenticationError (py ''Incorrect API key provided'')))\<rparr>"

text \<open>A document whose text is 4001 number signs.\<close>

definition long_text :: pystr where
  "long_text = replicate 4001 0x23"

definition long_text_env :: env where
  "long_text_env = smith_env\<lparr>pdf_reader := (\<lambda>d. Inr [Inr (Some long_text)])\<rparr>"

text \<open>The request with the role spelled \<open>student\<close>.\<close>

definition student_request :: request where
  "student_request =
     smith_request\<lparr>form := [(py ''role'', py ''student''), (py ''case_name'', py ''Smith v. Jones'')]\<rparr>"

text \<open>The request as \<open>app.py\<close> expects it: the field \<open>pdf\<close>, the name \<open>caseName\<close>.\<close>

definition app_py_request :: request where
  "app_py_request =
     \<lparr>content_length = 2048, parser_limits_exceeded = False,
      files = [(py ''pdf'', smith_upload)],
      form = [(py ''role'', py ''student''), (py ''caseName'', py ''Smith v. Jones'')]\<rparr>"

definition smith_result :: json where
  "smith_result = dict_set (result_dict (Some (py ''## ISSUE'')) smith_answer) (py ''cached'') (JBool False)"

definition all_uncached :: "cache \<Rightarrow> bool" where
  "all_uncached c = list_all (\<lambda>e. json_get (fst (snd e)) (py ''cached'') = Some (JBool False)) c"

definition app_py_unreadable :: "env \<Rightarrow> nat list \<Rightarrow> bool" where
  "app_py_unreadable env pdf_file \<longleftrightarrow>
     (case pdf_reader env pdf_file of
        Inl e \<Rightarrow> True
      | Inr pages \<Rightarrow>
          (case page_texts pages of
             Inl e \<Rightarrow> True
           | Inr texts \<Rightarrow> str_strip (str_join [0x20] texts) = []))"

text \<open>Something in the place of lines 176--345 of \<open>app.py\<close>.\<close>

definition some_rest :: "env \<Rightarrow> request \<Rightarrow> response \<times> event list" where
  "some_rest env req = ((JNull, 0), [])"

text \<open>Something else in that place.\<close>

definition other_rest :: "env \<Rightarrow> request \<Rightarrow> response \<times> event list" where
  "other_rest env req = ((JStr [], 401), [Print []])"

section \<open>The input sanitizer\<close>

lemma sanitize_input_filter: "sanitize_input (PyStr s) = filter kept_by_regex s"
  by simp

text \<open>
  Claim C6. For every input, the output of \<open>sanitize_input\<close> contains only code
  points in the printable ASCII range \<open>0x20 .. 0x7E\<close> or the newline; for the empty
  string and for \<open>None\<close> the output is the empty string; and sanitizing a sanitized
  string returns it unchanged.
\<close>

theorem sanitize_input_printable_idempotent:
  "(\<forall>c \<in> set (sanitize_input x). (0x20 \<le> c \<and> c \<le> 0x7E) \<or> c = 0x0A)
   \<and> sanitize_input PyNone = []
   \<and> sanitize_input (PyStr []) = []
   \<and> sanitize_input (PyStr (sanitize_input x)) = sanitize_input x"
proof (cases x)
  case PyNone
  then show ?thesis by simp
next
  case (PyStr s)
  have kept: "\<forall>c \<in> set (filter kept_by_regex s). (0x20 \<le> c \<and> c \<le> 0x7E) \<or> c = 0x0A"
    by (auto simp: kept_by_regex_def)
  have again: "filter kept_by_regex (filter kept_by_regex s) = filter kept_by_regex s"
    by simp
  show ?thesis
    unfolding PyStr sanitize_input_filter using kept again by simp
qed

theorem sanitize_input_witness:
  "sanitize_input (PyStr [0x41, 0x07, 0x0A, 0xE9, 0x7F, 0x7E, 0x1F, 0x20]) = [0x41, 0x0A, 0x7E, 0x20]
   \<and> sanitize_input (PyStr [0x41, 0x0A, 0x7E, 0x20]) = [0x41, 0x0A, 0x7E, 0x20]
   \<and> sanitize_input PyNone = []"
  using sanitize_input_printable_idempotent [of "PyStr [0x41, 0x07, 0x0A, 0xE9, 0x7F, 0x7E, 0x1F, 0x20]"]
  by (simp add: kept_by_regex_def)

section \<open>The paths through \<open>generate_irac\<close> of \<open>app_new.py\<close>\<close>

lemma allowed_file_nonempty: "allowed_file f \<Longrightarrow> f \<noteq> []"
  by (auto simp: allowed_file_def)

lemma generate_irac_too_large:
  "request_too_large req \<Longrightarrow>
   generate_irac md5 env req c =
     \<lparr>response = (error_json ''File too large'', 413), cache_after = c, events = []\<rparr>"
  by (simp add: generate_irac_def generate_irac_try_def request_files_def)

lemma generate_irac_no_file:
  "\<not> request_too_large req \<Longrightarrow> map_of (files req) (py ''file'') = None \<Longrightarrow>
   generate_irac md5 env req c =
     \<lparr>response = (error_json ''No file part'', 400), cache_after = c, events = []\<rparr>"
  by (simp add: generate_irac_def generate_irac_try_def request_files_def)

lemma generate_irac_not_allowed:
  "\<not> request_too_large req \<Longrightarrow> map_of (files req) (py ''file'') = Some file \<Longrightarrow>
   \<not> allowed_file (filename file) \<Longrightarrow>
   generate_irac md5 env req c =
     \<lparr>response = (error_json (if filename file = [] then ''No selected file''
                               else ''Invalid file type. Only PDF files are allowed.''), 400),
      cache_after = c, events = []\<rparr>"
  by (simp add: generate_irac_def generate_irac_try_def request_files_def)

lemma generate_irac_try_valid:
  "passes_validation req file \<Longrightarrow>
   generate_irac_try md5 env req c =
     (if cache_contains c (t_contains env) (cache_key_of md5 file req)
      then cache_hit env c (cache_key_of md5 file req)
      else cache_miss env c (cache_key_of md5 file req) (role_of req) (case_name_of req) (data file))"
  by (auto simp: passes_validation_def generate_irac_try_def request_files_def
      dest: allowed_file_nonempty)

lemma cache_hit_unexpired:
  "map_of c k = Some (v, expires) \<Longrightarrow> t_getitem env < expires \<Longrightarrow>
   cache_hit env c k = (Inr (v, 200), move_to_end k (v, expires) c, [LogInfo (py ''Cache hit'')])"
  by (simp add: cache_hit_def cache_getitem_def)

lemma cache_hit_expired:
  "map_of c k = Some (v, expires) \<Longrightarrow> \<not> t_getitem env < expires \<Longrightarrow>
   cache_hit env c k = (Inl (Exn KeyError (key_error_text k)), move_to_end k (v, expires) c, [LogInfo (py ''Cache hit'')])"
  by (simp add: cache_hit_def cache_getitem_def)

lemma generate_irac_hit:
  assumes "passes_validation req file" and "map_of c (cache_key_of md5 file req) = Some (v, expires)"
    and "t_contains env < expires" and "t_getitem env < expires"
  shows "generate_irac md5 env req c =
     \<lparr>response = (v, 200), cache_after = move_to_end (cache_key_of md5 file req) (v, expires) c,
      events = [LogInfo (py ''Cache hit'')]\<rparr>"
  using assms
  by (simp add: generate_irac_def generate_irac_try_valid cache_contains_def cache_hit_unexpired)

lemma generate_irac_miss:
  assumes "passes_validation req file"
    and "\<not> cache_contains c (t_contains env) (cache_key_of md5 file req)"
  shows "generate_irac_try md5 env req c =
     cache_miss env c (cache_key_of md5 file req) (role_of req) (case_name_of req) (data file)"
  using assms by (simp add: generate_irac_try_valid)


lemma extract_text_ok:
  "read_pdf env pdf = Inr text \<Longrightarrow> extract_text_from_pdf env pdf = (Inr text, [ExtractCall pdf])"
  by (simp add: extract_text_from_pdf_def)

lemma extract_text_failed:
  "read_pdf env pdf = Inl e \<Longrightarrow>
   extract_text_from_pdf env pdf =
     (Inl (Exn ValueError (py ''Failed to extract text from PDF'')),
      [ExtractCall pdf, LogError (py ''Error extracting text from PDF: '' @ str_exn e)])"
  by (simp add: extract_text_from_pdf_def)

lemma cache_miss_failed:
  "read_pdf env pdf = Inl e \<Longrightarrow>
   cache_miss env c k role cn pdf =
     (Inr (error_json ''Error processing PDF file'', 400), c,
      [ExtractCall pdf, LogError (py ''Error extracting text from PDF: '' @ str_exn e),
       LogError (py ''PDF processing error: '' @ py ''Failed to extract text from PDF'')])"
  by (simp add: cache_miss_def extract_text_failed)

lemma cache_miss_blank:
  "read_pdf env pdf = Inr text \<Longrightarrow> str_strip text = [] \<Longrightarrow>
   cache_miss env c k role cn pdf =
     (Inr (error_json ''The uploaded PDF appears to be empty or could not be read'', 400), c,
      [ExtractCall pdf])"
  by (simp add: cache_miss_def extract_text_ok)

lemma cache_miss_text:
  "read_pdf env pdf = Inr text \<Longrightarrow> str_strip text \<noteq> [] \<Longrightarrow>
   cache_miss env c k role cn pdf = call_openai env c k (build_prompt role cn text) [ExtractCall pdf]"
  by (simp add: cache_miss_def extract_text_ok)

lemma call_openai_raises:
  "chat_completion env (chat_request_new prompt) = Inl e \<Longrightarrow>
   call_openai env c k prompt evs =
     (Inr (error_json ''Error generating analysis. Please try again later.'', 500), c,
      evs @ [CompletionCall (chat_request_new prompt), LogError (py ''OpenAI API error: '' @ str_exn e)])"
  by (simp add: call_openai_def)

lemma call_openai_no_choice:
  "chat_completion env (chat_request_new prompt) = Inr resp \<Longrightarrow> choices resp = [] \<Longrightarrow>
   call_openai env c k prompt evs =
     (Inr (error_json ''Error generating analysis. Please try again later.'', 500), c,
      evs @ [CompletionCall (chat_request_new prompt),
             LogError (py ''OpenAI API error: '' @ py ''list index out of range'')])"
  by (simp add: call_openai_def)

lemma call_openai_answer:
  "chat_completion env (chat_request_new prompt) = Inr resp \<Longrightarrow> choices resp = content # others \<Longrightarrow>
   call_openai env c k prompt evs =
     (Inr (dict_set (result_dict content resp) (py ''cached'') (JBool False), 200),
      cache_setitem c (t_setitem env) k (dict_set (result_dict content resp) (py ''cached'') (JBool False)),
      evs @ [CompletionCall (chat_request_new prompt)])"
  by (simp add: call_openai_def Let_def)

lemma map_of_items_set: "map_of (items_set items k v) k = Some v"
  by (induction items k v rule: items_set.induct) auto

lemma result_cached_False:
  "json_get (dict_set (result_dict content resp) (py ''cached'') (JBool False)) (py ''cached'')
     = Some (JBool False)"
  by (simp add: result_dict_def map_of_items_set)

lemma map_of_move_to_end: "map_of (move_to_end k item c) k = Some item"
proof -
  have "map_of (filter (\<lambda>e. fst e \<noteq> k) c) k = None"
    by (induction c) auto
  then show ?thesis
    by (simp add: move_to_end_def map_add_def)
qed

lemma map_of_cache_setitem: "map_of (cache_setitem c now k v) k = Some (v, now + cache_ttl)"
  by (simp add: cache_setitem_def Let_def map_of_move_to_end)


lemma generate_irac_of_try:
  "generate_irac_try md5 env req c = (Inr r, c', evs) \<Longrightarrow>
   generate_irac md5 env req c = \<lparr>response = r, cache_after = c', events = evs\<rparr>"
  by (simp add: generate_irac_def)

lemma generate_irac_hit_expired:
  assumes "passes_validation req file" and "map_of c (cache_key_of md5 file req) = Some (v, expires)"
    and "t_contains env < expires" and "\<not> t_getitem env < expires"
  shows "generate_irac md5 env req c =
     \<lparr>response = (error_json ''An unexpected error occurred'', 500),
      cache_after = move_to_end (cache_key_of md5 file req) (v, expires) c,
      events = [LogInfo (py ''Cache hit''),
                LogError (py ''Unexpected error: '' @ key_error_text (cache_key_of md5 file req))]\<rparr>"
  using assms
  by (simp add: generate_irac_def generate_irac_try_valid cache_contains_def cache_hit_expired)

lemma generate_irac_cases
  [case_names too_large no_file not_allowed hit hit_expired failed blank raises no_choice answer]:
  obtains
    (too_large) "request_too_large req"
      "generate_irac md5 env req c =
         \<lparr>response = (error_json ''File too large'', 413), cache_after = c, events = []\<rparr>"
  | (no_file) "\<not> request_too_large req" "map_of (files req) (py ''file'') = None"
      "generate_irac md5 env req c =
         \<lparr>response = (error_json ''No file part'', 400), cache_after = c, events = []\<rparr>"
  | (not_allowed) upl where "\<not> request_too_large req"
      "map_of (files req) (py ''file'') = Some upl" "\<not> allowed_file (filename upl)"
      "generate_irac md5 env req c =
         \<lparr>response = (error_json (if filename upl = [] then ''No selected file''
                                   else ''Invalid file type. Only PDF files are allowed.''), 400),
          cache_after = c, events = []\<rparr>"
  | (hit) upl v expires where "passes_validation req upl"
      "map_of c (cache_key_of md5 upl req) = Some (v, expires)"
      "t_contains env < expires" "t_getitem env < expires"
      "generate_irac md5 env req c =
         \<lparr>response = (v, 200),
          cache_after = move_to_end (cache_key_of md5 upl req) (v, expires) c,
          events = [LogInfo (py ''Cache hit'')]\<rparr>"
  | (hit_expired) upl v expires where "passes_validation req upl"
      "map_of c (cache_key_of md5 upl req) = Some (v, expires)"
      "t_contains env < expires" "\<not> t_getitem env < expires"
      "generate_irac md5 env req c =
         \<lparr>response = (error_json ''An unexpected error occurred'', 500),
          cache_after = move_to_end (cache_key_of md5 upl req) (v, expires) c,
          events = [LogInfo (py ''Cache hit''),
                    LogError (py ''Unexpected error: '' @ key_error_text (cache_key_of md5 upl req))]\<rparr>"
  | (failed) upl e where "passes_validation req upl"
      "\<not> cache_contains c (t_contains env) (cache_key_of md5 upl req)"
      "read_pdf env (data upl) = Inl e"
      "generate_irac md5 env req c =
         \<lparr>response = (error_json ''Error processing PDF file'', 400), cache_after = c,
          events = [ExtractCall (data upl),
                    LogError (py ''Error extracting text from PDF: '' @ str_exn e),
                    LogError (py ''PDF processing error: '' @ py ''Failed to extract text from PDF'')]\<rparr>"
  | (blank) upl doc where "passes_validation req upl"
      "\<not> cache_contains c (t_contains env) (cache_key_of md5 upl req)"
      "read_pdf env (data upl) = Inr doc" "str_strip doc = []"
      "generate_irac md5 env req c =
         \<lparr>response = (error_json ''The uploaded PDF appears to be empty or could not be read'', 400),
          cache_after = c, events = [ExtractCall (data upl)]\<rparr>"
  | (raises) upl doc e where "passes_validation req upl"
      "\<not> cache_contains c (t_contains env) (cache_key_of md5 upl req)"
      "read_pdf env (data upl) = Inr doc" "str_strip doc \<noteq> []"
      "chat_completion env (chat_request_new (build_prompt (role_of req) (case_name_of req) doc)) = Inl e"
      "generate_irac md5 env req c =
         \<lparr>response = (error_json ''Error generating analysis. Please try again later.'', 500),
          cache_after = c,
          events = [ExtractCall (data upl),
                    CompletionCall (chat_request_new (build_prompt (role_of req) (case_name_of req) doc)),
                    LogError (py ''OpenAI API error: '' @ str_exn e)]\<rparr>"
  | (no_choice) upl doc resp where "passes_validation req upl"
      "\<not> cache_contains c (t_contains env) (cache_key_of md5 upl req)"
      "read_pdf env (data upl) = Inr doc" "str_strip doc \<noteq> []"
      "chat_completion env (chat_request_new (build_prompt (role_of req) (case_name_of req) doc)) = Inr resp"
      "choices resp = []"
      "generate_irac md5 env req c =
         \<lparr>response = (error_json ''Error generating analysis. Please try again later.'', 500),
          cache_after = c,
          events = [ExtractCall (data upl),
                    CompletionCall (chat_request_new (build_prompt (role_of req) (case_name_of req) doc)),
                    LogError (py ''OpenAI API error: '' @ py ''list index out of range'')]\<rparr>"
  | (answer) upl doc resp content others where "passes_validation req upl"
      "\<not> cache_contains c (t_contains env) (cache_key_of md5 upl req)"
      "read_pdf env (data upl) = Inr doc" "str_strip doc \<noteq> []"
      "chat_completion env (chat_request_new (build_prompt (role_of req) (case_name_of req) doc)) = Inr resp"
      "choices resp = content # others"
      "generate_irac md5 env req c =
         \<lparr>response = (dict_set (result_dict content resp) (py ''cached'') (JBool False), 200),
          cache_after = cache_setitem c (t_setitem env) (cache_key_of md5 upl req)
                          (dict_set (result_dict content resp) (py ''cached'') (JBool False)),
          events = [ExtractCall (data upl),
                    CompletionCall (chat_request_new (build_prompt (role_of req) (case_name_of req) doc))]\<rparr>"
proof (cases "request_too_large req")
  case True
  then show ?thesis using too_large generate_irac_too_large by blast
next
  case small: False
  then have le: "\<not> request_too_large req" by simp
  show ?thesis
  proof (cases "map_of (files req) (py ''file'')")
    case None
    then show ?thesis using no_file [OF le None generate_irac_no_file [OF le None]] by blast
  next
    case (Some upl)
    show ?thesis
    proof (cases "allowed_file (filename upl)")
      case False
      then show ?thesis
        using not_allowed [OF le Some False generate_irac_not_allowed [OF le Some False]] by blast
    next
      case True
      with le Some have valid: "passes_validation req upl"
        by (simp add: passes_validation_def)
      let ?k = "cache_key_of md5 upl req"
      show ?thesis
      proof (cases "cache_contains c (t_contains env) ?k")
        case contains: True
        then obtain v expires where entry: "map_of c ?k = Some (v, expires)"
          and fresh: "t_contains env < expires"
          by (auto simp: cache_contains_def split: option.splits)
        show ?thesis
        proof (cases "t_getitem env < expires")
          case True
          then show ?thesis
            using hit [OF valid entry fresh True generate_irac_hit [OF valid entry fresh True]] by blast
        next
          case False
          then show ?thesis
            using hit_expired [OF valid entry fresh False
                generate_irac_hit_expired [OF valid entry fresh False]] by blast
        qed
      next
        case miss: False
        note body = generate_irac_miss [OF valid miss]
        show ?thesis
        proof (cases "read_pdf env (data upl)")
          case (Inl e)
          show ?thesis
            using failed [OF valid miss Inl]
              generate_irac_of_try [of md5 env req c, unfolded body cache_miss_failed [OF Inl]]
            by blast
        next
          case (Inr doc)
          show ?thesis
          proof (cases "str_strip doc = []")
            case True
            show ?thesis
              using blank [OF valid miss Inr True]
                generate_irac_of_try [of md5 env req c, unfolded body cache_miss_blank [OF Inr True]]
              by blast
          next
            case False
            let ?p = "build_prompt (role_of req) (case_name_of req) doc"
            note body' = body [unfolded cache_miss_text [OF Inr False]]
            show ?thesis
            proof (cases "chat_completion env (chat_request_new ?p)")
              case e: (Inl e)
              show ?thesis
                using raises [OF valid miss Inr False e]
                  generate_irac_of_try [of md5 env req c, unfolded body' call_openai_raises [OF e]]
                by simp
            next
              case r: (Inr resp)
              show ?thesis
              proof (cases "choices resp")
                case Nil
                show ?thesis
                  using no_choice [OF valid miss Inr False r Nil]
                    generate_irac_of_try [of md5 env req c, unfolded body' call_openai_no_choice [OF r Nil]]
                  by simp
              next
                case (Cons content others)
                show ?thesis
                  using answer [OF valid miss Inr False r Cons]
                    generate_irac_of_try [of md5 env req c, unfolded body' call_openai_answer [OF r Cons]]
                  by simp
              qed
            qed
          qed
        qed
      qed
    qed
  qed
qed

lemma generate_irac_failed:
  assumes "passes_validation req upl"
    and "\<not> cache_contains c (t_contains env) (cache_key_of md5 upl req)"
    and "read_pdf env (data upl) = Inl e"
  shows "generate_irac md5 env req c =
     \<lparr>response = (error_json ''Error processing PDF file'', 400), cache_after = c,
      events = [ExtractCall (data upl),
                LogError (py ''Error extracting text from PDF: '' @ str_exn e),
                LogError (py ''PDF processing error: '' @ py ''Failed to extract text from PDF'')]\<rparr>"
  using assms
  by (simp add: generate_irac_of_try generate_irac_miss cache_miss_failed)

lemma generate_irac_raises:
  assumes "passes_validation req upl"
    and "\<not> cache_contains c (t_contains env) (cache_key_of md5 upl req)"
    and "read_pdf env (data upl) = Inr doc" and "str_strip doc \<noteq> []"
    and "chat_completion env (chat_request_new (build_prompt (role_of req) (case_name_of req) doc)) = Inl e"
  shows "generate_irac md5 env req c =
     \<lparr>response = (error_json ''Error generating analysis. Please try again later.'', 500),
      cache_after = c,
      events = [ExtractCall (data upl),
                CompletionCall (chat_request_new (build_prompt (role_of req) (case_name_of req) doc)),
                LogError (py ''OpenAI API error: '' @ str_exn e)]\<rparr>"
  using assms
  by (simp add: generate_irac_of_try generate_irac_miss cache_miss_text call_openai_raises)

lemma generate_irac_answer:
  assumes "passes_validation req upl"
    and "\<not> cache_contains c (t_contains env) (cache_key_of md5 upl req)"
    and "read_pdf env (data upl) = Inr doc" and "str_strip doc \<noteq> []"
    and "chat_completion env (chat_request_new (build_prompt (role_of req) (case_name_of req) doc)) = Inr resp"
    and "choices resp = content # others"
  shows "generate_irac md5 env req c =
     \<lparr>response = (dict_set (result_dict content resp) (py ''cached'') (JBool False), 200),
      cache_after = cache_setitem c (t_setitem env) (cache_key_of md5 upl req)
                      (dict_set (result_dict content resp) (py ''cached'') (JBool False)),
      events = [ExtractCall (data upl),
                CompletionCall (chat_request_new (build_prompt (role_of req) (case_name_of req) doc))]\<rparr>"
  using assms
  by (simp add: generate_irac_of_try generate_irac_miss cache_miss_text call_openai_answer)

subsection \<open>The concrete request\<close>

lemma allowed_smith: "allowed_file (py ''smith.pdf'')"
  by (simp add: allowed_file_def py_def after_last_dot_def full_stop_def str_lower_def
      lower_char_def ALLOWED_EXTENSIONS_def)

lemma not_allowed_brief: "\<not> allowed_file (py ''brief.txt'')"
  by (simp add: allowed_file_def py_def after_last_dot_def full_stop_def str_lower_def
      lower_char_def ALLOWED_EXTENSIONS_def)

lemma smith_valid: "passes_validation smith_request smith_upload"
  by (simp add: passes_validation_def request_too_large_def smith_request_def smith_upload_def
      MAX_CONTENT_LENGTH_def allowed_smith)

lemma smith_text_not_blank: "str_strip (py ''Smith v. Jones, 123 U.S. 456 (2020).'') \<noteq> []"
  by (simp add: str_strip_def py_def isspace_def)

lemma smith_read: "read_pdf smith_env d = Inr (py ''Smith v. Jones, 123 U.S. 456 (2020).'')"
  by (simp add: read_pdf_def smith_env_def)

lemma smith_first:
  "generate_irac stub_md5 smith_env smith_request [] =
     \<lparr>response = (smith_result, 200),
      cache_after = cache_setitem [] 11 (cache_key_of stub_md5 smith_upload smith_request) smith_result,
      events = [ExtractCall (data smith_upload),
                CompletionCall (chat_request_new
                  (build_prompt (role_of smith_request) (case_name_of smith_request)
                     (py ''Smith v. Jones, 123 U.S. 456 (2020).'')))]\<rparr>"
proof -
  have miss: "\<not> cache_contains [] (t_contains smith_env) (cache_key_of stub_md5 smith_upload smith_request)"
    by (simp add: cache_contains_def)
  have chat: "chat_completion smith_env rq = Inr smith_answer" for rq
    by (simp add: smith_env_def)
  have ch: "choices smith_answer = Some (py ''## ISSUE'') # []"
    by (simp add: smith_answer_def)
  have t: "t_setitem smith_env = 11"
    by (simp add: smith_env_def)
  show ?thesis
    using generate_irac_answer [OF smith_valid miss smith_read smith_text_not_blank chat ch]
    by (simp add: smith_result_def t)
qed

section \<open>The response cache in the handler\<close>

lemma smith_cached:
  "map_of (cache_after (generate_irac stub_md5 smith_env smith_request []))
     (cache_key_of stub_md5 smith_upload smith_request) = Some (smith_result, 311)"
  by (simp add: smith_first map_of_cache_setitem cache_ttl_def)

lemma smith_env_times: "t_contains smith_env = 10" "t_getitem smith_env = 10" "t_setitem smith_env = 11"
  by (simp_all add: smith_env_def)

lemma smith_later_times: "t_contains smith_later = 100" "t_getitem smith_later = 100"
  by (simp_all add: smith_later_def)

text \<open>
  Claim C1, as stated, fails: the upload checks come before the cache lookup. After a
  first successful request, the same file name, role and case name in a request
  body above the size limit find an unexpired entry for their fingerprint in the
  cache, and the answer is the 413, not the cached result.
\<close>

theorem oversized_request_not_served_from_cache:
  "cache_contains (cache_after (generate_irac stub_md5 smith_env smith_request []))
     (t_contains smith_later) (cache_key_of stub_md5 smith_upload oversized_request)
   \<and> cache_key_of stub_md5 smith_upload oversized_request
       = cache_key_of stub_md5 smith_upload smith_request
   \<and> map_of (files oversized_request) (py ''file'') = Some smith_upload
   \<and> response (generate_irac stub_md5 smith_later oversized_request
         (cache_after (generate_irac stub_md5 smith_env smith_request [])))
       = (error_json ''File too large'', 413)"
proof -
  have same: "cache_key_of stub_md5 smith_upload oversized_request
      = cache_key_of stub_md5 smith_upload smith_request"
    by (simp add: cache_key_of_def role_of_def case_name_of_def form_get_def oversized_request_def)
  have big: "request_too_large oversized_request"
    by (simp add: request_too_large_def oversized_request_def)
  have upl: "map_of (files oversized_request) (py ''file'') = Some smith_upload"
    by (simp add: oversized_request_def smith_request_def)
  show ?thesis
    by (simp add: same upl generate_irac_too_large [OF big] cache_contains_def smith_cached
        smith_later_times)
qed

text \<open>
  Claim C1, amended. The fingerprint is a function of the file name, the role and the
  sanitized case name. For every request that passes the upload checks (the form
  parser accepts the body: its \<open>Content-Length\<close> is within the size limit and no
  other limit of the parser is exceeded; the file part is present; its extension is
  allowed) and whose fingerprint has a cache entry that is unexpired when the
  handler tests and reads it, the handler returns the cached value with status 200
  and calls neither the extractor nor the completion client. In particular, when a
  request was answered with status 200 after a completion call, the same request
  arriving before \<open>ttl\<close> seconds have passed since the entry was written gets the
  same response with no completion call.
\<close>

theorem cache_hit_returns_cached_result:
  "(filename upl = filename upl' \<and> role_of req = role_of req' \<and> case_name_of req = case_name_of req'
      \<longrightarrow> cache_key_of md5 upl req = cache_key_of md5 upl' req')
   \<and> (passes_validation req upl \<and> map_of c (cache_key_of md5 upl req) = Some (v, expires)
        \<and> t_contains env < expires \<and> t_getitem env < expires
      \<longrightarrow> response (generate_irac md5 env req c) = (v, 200)
          \<and> no_completion_call (events (generate_irac md5 env req c))
          \<and> no_extract_call (events (generate_irac md5 env req c)))
   \<and> (snd (response (generate_irac md5 env1 req c0)) = 200
        \<and> \<not> no_completion_call (events (generate_irac md5 env1 req c0))
        \<and> t_contains env2 < t_setitem env1 + cache_ttl
        \<and> t_getitem env2 < t_setitem env1 + cache_ttl
      \<longrightarrow> response (generate_irac md5 env2 req (cache_after (generate_irac md5 env1 req c0)))
            = response (generate_irac md5 env1 req c0)
          \<and> no_completion_call
              (events (generate_irac md5 env2 req (cache_after (generate_irac md5 env1 req c0)))))"
proof (intro conjI impI)
  assume "filename upl = filename upl' \<and> role_of req = role_of req' \<and> case_name_of req = case_name_of req'"
  then show "cache_key_of md5 upl req = cache_key_of md5 upl' req'"
    by (simp add: cache_key_of_def)
next
  assume h: "passes_validation req upl \<and> map_of c (cache_key_of md5 upl req) = Some (v, expires)
        \<and> t_contains env < expires \<and> t_getitem env < expires"
  then have out: "generate_irac md5 env req c =
     \<lparr>response = (v, 200), cache_after = move_to_end (cache_key_of md5 upl req) (v, expires) c,
      events = [LogInfo (py ''Cache hit'')]\<rparr>"
    using generate_irac_hit by blast
  show "response (generate_irac md5 env req c) = (v, 200)"
    by (simp add: out)
  show "no_completion_call (events (generate_irac md5 env req c))"
    by (simp add: out no_completion_call_def)
  show "no_extract_call (events (generate_irac md5 env req c))"
    by (simp add: out no_extract_call_def)
next
  let ?out1 = "generate_irac md5 env1 req c0"
  assume h: "snd (response ?out1) = 200 \<and> \<not> no_completion_call (events ?out1)
        \<and> t_contains env2 < t_setitem env1 + cache_ttl
        \<and> t_getitem env2 < t_setitem env1 + cache_ttl"
  have "\<exists>upl v. passes_validation req upl \<and> response ?out1 = (v, 200)
          \<and> map_of (cache_after ?out1) (cache_key_of md5 upl req) = Some (v, t_setitem env1 + cache_ttl)"
  proof (cases rule: generate_irac_cases [of req md5 env1 c0])
    case (answer upl doc resp content others)
    then show ?thesis
      by (auto simp: map_of_cache_setitem)
  qed (use h in \<open>simp_all add: no_completion_call_def\<close>)
  then obtain upl v where valid: "passes_validation req upl" and r: "response ?out1 = (v, 200)"
    and entry: "map_of (cache_after ?out1) (cache_key_of md5 upl req) = Some (v, t_setitem env1 + cache_ttl)"
    by blast
  from h have t1: "t_contains env2 < t_setitem env1 + cache_ttl"
    and t2: "t_getitem env2 < t_setitem env1 + cache_ttl" by simp_all
  note out2 = generate_irac_hit [OF valid entry t1 t2]
  show "response (generate_irac md5 env2 req (cache_after ?out1)) = response ?out1"
    by (simp add: out2 r)
  show "no_completion_call (events (generate_irac md5 env2 req (cache_after ?out1)))"
    by (simp add: out2 no_completion_call_def)
qed

theorem cache_hit_witness:
  "response (generate_irac stub_md5 smith_later smith_request
      (cache_after (generate_irac stub_md5 smith_env smith_request []))) = (smith_result, 200)
   \<and> response (generate_irac stub_md5 smith_env smith_request []) = (smith_result, 200)
   \<and> no_completion_call (events (generate_irac stub_md5 smith_later smith_request
        (cache_after (generate_irac stub_md5 smith_env smith_request []))))
   \<and> \<not> no_completion_call (events (generate_irac stub_md5 smith_env smith_request []))
   \<and> passes_validation smith_request smith_upload"
proof -
  have first: "snd (response (generate_irac stub_md5 smith_env smith_request [])) = 200
      \<and> \<not> no_completion_call (events (generate_irac stub_md5 smith_env smith_request []))
      \<and> t_contains smith_later < t_setitem smith_env + cache_ttl
      \<and> t_getitem smith_later < t_setitem smith_env + cache_ttl"
    by (simp add: smith_first no_completion_call_def smith_later_times smith_env_times cache_ttl_def)
  show ?thesis
    using cache_hit_returns_cached_result
      [of smith_upload smith_upload smith_request smith_request stub_md5
          "cache_after (generate_irac stub_md5 smith_env smith_request [])" smith_result 311
          smith_later smith_env "[]" smith_later]
      first smith_valid smith_cached
    by (simp add: smith_later_times smith_first)
qed

section \<open>The \<open>cached\<close> field\<close>

lemma py_error_not_cached: "py ''error'' \<noteq> py ''cached''"
  by (simp add: py_def)

lemma error_json_fields:
  "json_get (error_json m) (py ''error'') = Some (JStr (py m))"
  "json_get (error_json m) (py ''cached'') = None"
  "json_get (error_json m) (py ''analysis'') = None"
  "json_get (error_json m) (py ''summary'') = None"
  by (simp_all add: error_json_def py_def)

lemma all_uncached_move_to_end:
  "all_uncached c \<Longrightarrow> json_get v (py ''cached'') = Some (JBool False) \<Longrightarrow>
   all_uncached (move_to_end k (v, expires) c)"
  by (simp add: all_uncached_def move_to_end_def list_all_iff)

lemma all_uncached_setitem:
  "all_uncached c \<Longrightarrow> json_get v (py ''cached'') = Some (JBool False) \<Longrightarrow>
   all_uncached (cache_setitem c now k v)"
proof -
  assume c: "all_uncached c" and v: "json_get v (py ''cached'') = Some (JBool False)"
  have "all_uncached (expire now c)"
    using c by (simp add: all_uncached_def expire_def list_all_iff)
  moreover have "all_uncached (drop n (expire now c))" for n
    using calculation by (auto simp: all_uncached_def list_all_iff dest: in_set_dropD)
  ultimately show ?thesis
    using v by (simp add: cache_setitem_def Let_def all_uncached_move_to_end)
qed

lemma all_uncached_entry:
  "all_uncached c \<Longrightarrow> map_of c k = Some (v, expires) \<Longrightarrow>
   json_get v (py ''cached'') = Some (JBool False)"
  by (auto simp: all_uncached_def list_all_iff dest!: map_of_SomeD)

lemma all_uncached_generate_irac:
  assumes "all_uncached c"
  shows "all_uncached (cache_after (generate_irac md5 env req c))"
proof (cases rule: generate_irac_cases [of req md5 env c])
  case (hit upl v expires)
  then show ?thesis
    using assms by (simp add: all_uncached_move_to_end all_uncached_entry [OF assms hit(2)])
next
  case (hit_expired upl v expires)
  then show ?thesis
    using assms by (simp add: all_uncached_move_to_end all_uncached_entry [OF assms hit_expired(2)])
next
  case (answer upl doc resp content others)
  then show ?thesis
    using assms by (simp add: all_uncached_setitem result_cached_False)
qed (use assms in simp_all)

lemma reachable_all_uncached: "reachable md5 c \<Longrightarrow> all_uncached c"
proof (induction rule: reachable.induct)
  case start
  show ?case by (simp add: all_uncached_def)
next
  case (request c env req)
  then show ?case by (simp add: all_uncached_generate_irac)
qed

text \<open>
  Claim C10. In \<open>app_new.py\<close>, for every state the cache of a running server can
  be in, every response of \<open>generate_irac\<close> with status 200 has the \<open>cached\<close> field
  \<open>False\<close>, the responses served from the cache included; no response has the
  field \<open>True\<close>; and the value written to the cache after a completion call is the
  response body itself.
\<close>

theorem cached_field_always_false:
  assumes "reachable md5 c"
  shows "(snd (response (generate_irac md5 env req c)) = 200
            \<longrightarrow> json_get (fst (response (generate_irac md5 env req c))) (py ''cached'') = Some (JBool False))
         \<and> json_get (fst (response (generate_irac md5 env req c))) (py ''cached'') \<noteq> Some (JBool True)
         \<and> (snd (response (generate_irac md5 env req c)) = 200
              \<and> \<not> no_completion_call (events (generate_irac md5 env req c))
            \<longrightarrow> (\<exists>upl. map_of (files req) (py ''file'') = Some upl
                   \<and> map_of (cache_after (generate_irac md5 env req c)) (cache_key_of md5 upl req)
                       = Some (fst (response (generate_irac md5 env req c)), t_setitem env + cache_ttl)))"
proof -
  note inv = reachable_all_uncached [OF assms]
  show ?thesis
  proof (cases rule: generate_irac_cases [of req md5 env c])
    case (hit upl v expires)
    then show ?thesis
      using all_uncached_entry [OF inv hit(2)] by (simp add: no_completion_call_def)
  next
    case (answer upl doc resp content others)
    then show ?thesis
      by (auto simp: result_cached_False map_of_cache_setitem passes_validation_def)
  qed (simp_all add: error_json_fields no_completion_call_def)
qed

theorem cached_field_witness:
  "reachable stub_md5 (cache_after (generate_irac stub_md5 smith_env smith_request []))
   \<and> response (generate_irac stub_md5 smith_later smith_request
        (cache_after (generate_irac stub_md5 smith_env smith_request []))) = (smith_result, 200)
   \<and> json_get smith_result (py ''cached'') = Some (JBool False)"
proof -
  have r: "reachable stub_md5 (cache_after (generate_irac stub_md5 smith_env smith_request []))"
    by (rule reachable.request [OF reachable.start])
  have hit: "response (generate_irac stub_md5 smith_later smith_request
        (cache_after (generate_irac stub_md5 smith_env smith_request []))) = (smith_result, 200)"
    using generate_irac_hit [OF smith_valid smith_cached, of smith_later]
    by (simp add: smith_later_times)
  show ?thesis
    using cached_field_always_false [OF r, of smith_later smith_request] r hit by simp
qed

section \<open>Upload validation\<close>

lemma huge_upload_length: "length (data huge_upload) = MAX_CONTENT_LENGTH + 1"
  by (simp add: huge_upload_def)

text \<open>
  Claim C5. \<open>brief.txt\<close> has a disallowed extension. For every upload whose file
  name has a disallowed extension the handler answers with a validation error of
  the 400 class (400, or 413 when the form parser also finds the body too large)
  and the extractor is not called. For every upload of more than 16 MiB (the
  request body is at least as long as the upload it carries), and for every other
  body the form parser finds too large, the handler answers 413 and the contents
  are never passed to the extractor.
\<close>

theorem invalid_upload_rejected_before_extraction:
  "\<not> allowed_file (py ''brief.txt'')
   \<and> (map_of (files req) (py ''file'') = Some upl \<and> \<not> allowed_file (filename upl)
      \<longrightarrow> response (generate_irac md5 env req c)
            = (if request_too_large req then (error_json ''File too large'', 413)
               else if filename upl = [] then (error_json ''No selected file'', 400)
               else (error_json ''Invalid file type. Only PDF files are allowed.'', 400))
          \<and> no_extract_call (events (generate_irac md5 env req c))
          \<and> no_completion_call (events (generate_irac md5 env req c)))
   \<and> (map_of (files req') (py ''file'') = Some upl' \<and> MAX_CONTENT_LENGTH < length (data upl')
        \<and> length (data upl') \<le> content_length req'
      \<longrightarrow> response (generate_irac md5 env req' c) = (error_json ''File too large'', 413)
          \<and> no_extract_call (events (generate_irac md5 env req' c)))
   \<and> (request_too_large req''
      \<longrightarrow> response (generate_irac md5 env req'' c) = (error_json ''File too large'', 413)
          \<and> no_extract_call (events (generate_irac md5 env req'' c)))"
proof (intro conjI impI)
  show "\<not> allowed_file (py ''brief.txt'')"
    by (rule not_allowed_brief)
next
  assume h: "map_of (files req) (py ''file'') = Some upl \<and> \<not> allowed_file (filename upl)"
  have out: "generate_irac md5 env req c =
      \<lparr>response = (if request_too_large req then (error_json ''File too large'', 413)
               else if filename upl = [] then (error_json ''No selected file'', 400)
               else (error_json ''Invalid file type. Only PDF files are allowed.'', 400)),
       cache_after = c, events = []\<rparr>"
  proof (cases "request_too_large req")
    case True
    then show ?thesis by (simp add: generate_irac_too_large)
  next
    case False
    from generate_irac_not_allowed [OF False] h False show ?thesis by simp
  qed
  show "response (generate_irac md5 env req c)
            = (if request_too_large req then (error_json ''File too large'', 413)
               else if filename upl = [] then (error_json ''No selected file'', 400)
               else (error_json ''Invalid file type. Only PDF files are allowed.'', 400))"
    by (simp add: out)
  show "no_extract_call (events (generate_irac md5 env req c))"
    by (simp add: out no_extract_call_def)
  show "no_completion_call (events (generate_irac md5 env req c))"
    by (simp add: out no_completion_call_def)
next
  assume h: "map_of (files req') (py ''file'') = Some upl' \<and> MAX_CONTENT_LENGTH < length (data upl')
        \<and> length (data upl') \<le> content_length req'"
  then have big: "request_too_large req'" by (simp add: request_too_large_def)
  show "response (generate_irac md5 env req' c) = (error_json ''File too large'', 413)"
    by (simp add: generate_irac_too_large [OF big])
  show "no_extract_call (events (generate_irac md5 env req' c))"
    by (simp add: generate_irac_too_large [OF big] no_extract_call_def)
next
  assume big: "request_too_large req''"
  show "response (generate_irac md5 env req'' c) = (error_json ''File too large'', 413)"
    by (simp add: generate_irac_too_large [OF big])
  show "no_extract_call (events (generate_irac md5 env req'' c))"
    by (simp add: generate_irac_too_large [OF big] no_extract_call_def)
qed

theorem invalid_upload_witness:
  "response (generate_irac stub_md5 smith_env brief_request [])
     = (error_json ''Invalid file type. Only PDF files are allowed.'', 400)
   \<and> no_extract_call (events (generate_irac stub_md5 smith_env brief_request []))
   \<and> response (generate_irac stub_md5 smith_env huge_request []) = (error_json ''File too large'', 413)
   \<and> no_extract_call (events (generate_irac stub_md5 smith_env huge_request []))
   \<and> MAX_CONTENT_LENGTH < length (data huge_upload)
   \<and> response (generate_irac stub_md5 smith_env long_field_request []) = (error_json ''File too large'', 413)
   \<and> no_extract_call (events (generate_irac stub_md5 smith_env long_field_request []))
   \<and> content_length long_field_request \<le> MAX_CONTENT_LENGTH"
proof -
  have brief: "map_of (files brief_request) (py ''file'')
        = Some \<lparr>filename = py ''brief.txt'', data = [0x68, 0x69]\<rparr>"
    "\<not> request_too_large brief_request"
    by (simp_all add: brief_request_def request_too_large_def MAX_CONTENT_LENGTH_def)
  have name: "py ''brief.txt'' \<noteq> []"
    by (simp add: py_def)
  have huge: "map_of (files huge_request) (py ''file'') = Some huge_upload"
    "content_length huge_request = MAX_CONTENT_LENGTH + 300"
    by (simp_all add: huge_request_def)
  have field: "request_too_large long_field_request"
    "content_length long_field_request \<le> MAX_CONTENT_LENGTH"
    by (simp_all add: long_field_request_def request_too_large_def smith_request_def
        MAX_CONTENT_LENGTH_def)
  show ?thesis
    using invalid_upload_rejected_before_extraction
      [of brief_request "\<lparr>filename = py ''brief.txt'', data = [0x68, 0x69]\<rparr>" stub_md5 smith_env "[]"
          huge_request huge_upload long_field_request]
    by (simp add: brief huge name not_allowed_brief huge_upload_length field)
qed

section \<open>Unreadable documents\<close>

lemma app_py_extract_unreadable:
  "app_py_unreadable env d \<Longrightarrow>
   str_strip (fst (app_py_extract_text_from_pdf env d)) = []
   \<and> no_completion_call (snd (app_py_extract_text_from_pdf env d))"
  by (auto simp: app_py_unreadable_def app_py_extract_text_from_pdf_def str_strip_def
      no_completion_call_def split: sum.splits)

lemma app_py_generate_irac_unreadable:
  assumes "app_py_passes_validation req pdf" and "app_py_unreadable env (data pdf)"
  shows "fst (app_py_generate_irac rest env req) = (error_json ''Could not read PDF content'', 400)"
    and "no_completion_call (snd (app_py_generate_irac rest env req))"
  using assms app_py_extract_unreadable [OF assms(2)]
  by (auto simp: app_py_generate_irac_def app_py_try_stmt_def app_py_try_body_def
      app_py_passes_validation_def request_files_def split: prod.splits)

text \<open>
  Claim C4, as stated, fails in \<open>app_new.py\<close>: the cache lookup comes before the
  extraction, so a corrupted document sent under the file name, role and case name
  of a cached answer gets that answer with status 200.
\<close>

theorem corrupted_document_served_from_cache:
  "unreadable corrupt_later (data smith_upload)
   \<and> map_of (files smith_request) (py ''file'') = Some smith_upload
   \<and> response (generate_irac stub_md5 corrupt_later smith_request
         (cache_after (generate_irac stub_md5 smith_env smith_request []))) = (smith_result, 200)"
proof -
  have t: "t_contains corrupt_later = 100" "t_getitem corrupt_later = 100"
    by (simp_all add: corrupt_later_def smith_later_def)
  have "unreadable corrupt_later (data smith_upload)"
    by (simp add: unreadable_def read_pdf_def corrupt_later_def)
  moreover have "map_of (files smith_request) (py ''file'') = Some smith_upload"
    by (simp add: smith_request_def)
  ultimately show ?thesis
    using generate_irac_hit [OF smith_valid smith_cached, of corrupt_later]
    by (simp add: t)
qed

text \<open>
  Claim C4, amended. In \<open>app_new.py\<close>, for every request that passes the upload
  checks (the form parser accepts the body, the file part is present, its extension
  is allowed) and has no unexpired cache entry, a document whose extraction fails or
  whose text is empty or white space gets a 400 with the message ``Error processing
  PDF file'' or ``The uploaded PDF appears to be empty or could not be read''; and
  for every request with such a document, cached or not, the completion client is
  not called. In \<open>app.py\<close>, for every request that passes the upload checks (the
  same three, for the field \<open>pdf\<close>), such a document gets a 400 with ``Could not
  read PDF content'' and the completion client is not called.
\<close>

theorem unreadable_document_rejected:
  "(passes_validation req upl \<and> \<not> cache_contains c (t_contains env) (cache_key_of md5 upl req)
      \<and> unreadable env (data upl)
     \<longrightarrow> response (generate_irac md5 env req c)
           = (error_json (case read_pdf env (data upl) of
                            Inl e \<Rightarrow> ''Error processing PDF file''
                          | Inr doc \<Rightarrow> ''The uploaded PDF appears to be empty or could not be read''),
              400))
   \<and> (map_of (files req) (py ''file'') = Some upl \<and> unreadable env (data upl)
     \<longrightarrow> no_completion_call (events (generate_irac md5 env req c)))
   \<and> (app_py_passes_validation req' pdf \<and> app_py_unreadable env (data pdf)
     \<longrightarrow> fst (app_py_generate_irac rest env req') = (error_json ''Could not read PDF content'', 400)
         \<and> no_completion_call (snd (app_py_generate_irac rest env req')))"
proof (intro conjI impI)
  assume h: "passes_validation req upl \<and> \<not> cache_contains c (t_contains env) (cache_key_of md5 upl req)
      \<and> unreadable env (data upl)"
  show "response (generate_irac md5 env req c)
           = (error_json (case read_pdf env (data upl) of
                            Inl e \<Rightarrow> ''Error processing PDF file''
                          | Inr doc \<Rightarrow> ''The uploaded PDF appears to be empty or could not be read''),
              400)"
  proof (cases "read_pdf env (data upl)")
    case (Inl e)
    with h generate_irac_failed [of req upl c env md5 e] show ?thesis by simp
  next
    case (Inr doc)
    with h have blank: "str_strip doc = []" by (simp add: unreadable_def)
    from h have "generate_irac_try md5 env req c =
        cache_miss env c (cache_key_of md5 upl req) (role_of req) (case_name_of req) (data upl)"
      by (simp add: generate_irac_miss)
    then show ?thesis
      using Inr by (simp add: generate_irac_def cache_miss_blank [OF Inr blank])
  qed
next
  assume h: "map_of (files req) (py ''file'') = Some upl \<and> unreadable env (data upl)"
  show "no_completion_call (events (generate_irac md5 env req c))"
  proof (cases rule: generate_irac_cases [of req md5 env c])
    case (raises upl' doc e)
    with h show ?thesis by (simp add: passes_validation_def unreadable_def)
  next
    case (no_choice upl' doc resp)
    with h show ?thesis by (simp add: passes_validation_def unreadable_def)
  next
    case (answer upl' doc resp content others)
    with h show ?thesis by (simp add: passes_validation_def unreadable_def)
  qed (simp_all add: no_completion_call_def)
next
  assume h: "app_py_passes_validation req' pdf \<and> app_py_unreadable env (data pdf)"
  then show "fst (app_py_generate_irac rest env req') = (error_json ''Could not read PDF content'', 400)"
    using app_py_generate_irac_unreadable(1) by blast
  from h show "no_completion_call (snd (app_py_generate_irac rest env req'))"
    using app_py_generate_irac_unreadable(2) by blast
qed

lemma app_py_request_valid: "app_py_passes_validation app_py_request smith_upload"
  by (simp add: app_py_passes_validation_def request_too_large_def app_py_request_def smith_upload_def
      MAX_CONTENT_LENGTH_def str_endswith_def str_lower_def lower_char_def py_def)

theorem unreadable_document_witness:
  "response (generate_irac stub_md5 corrupt_later smith_request [])
     = (error_json ''Error processing PDF file'', 400)
   \<and> no_completion_call (events (generate_irac stub_md5 corrupt_later smith_request []))
   \<and> fst (app_py_generate_irac some_rest corrupt_later app_py_request)
     = (error_json ''Could not read PDF content'', 400)
   \<and> no_completion_call (snd (app_py_generate_irac some_rest corrupt_later app_py_request))
   \<and> unreadable corrupt_later (data smith_upload)
   \<and> app_py_unreadable corrupt_later (data smith_upload)"
proof -
  have bad: "read_pdf corrupt_later d = Inl (Exn OtherError (py ''EOF marker not found''))" for d
    by (simp add: read_pdf_def corrupt_later_def)
  have u: "unreadable corrupt_later (data smith_upload)"
    by (simp add: unreadable_def bad)
  have u': "app_py_unreadable corrupt_later (data smith_upload)"
    by (simp add: app_py_unreadable_def corrupt_later_def)
  have miss: "\<not> cache_contains [] (t_contains corrupt_later) (cache_key_of stub_md5 smith_upload smith_request)"
    by (simp add: cache_contains_def)
  have upl: "map_of (files smith_request) (py ''file'') = Some smith_upload"
    by (simp add: smith_request_def)
  show ?thesis
    using unreadable_document_rejected
      [of smith_request smith_upload "[]" corrupt_later stub_md5 app_py_request smith_upload some_rest]
      smith_valid app_py_request_valid u u' miss upl
    by (simp add: bad)
qed

section \<open>The paths through \<open>generate_irac\<close> of \<open>app.py\<close>\<close>

lemma app_py_generate_irac_of_body:
  "app_py_try_body env req = (Inr (Returns r), evs) \<Longrightarrow> app_py_generate_irac rest env req = (r, evs)"
  "app_py_try_body env req = (Inl e, evs) \<Longrightarrow>
   app_py_generate_irac rest env req =
     ((error_json ''Failed to process request'', 500), evs @ [Print (py ''Error: '' @ str_exn e)])"
  by (simp_all add: app_py_generate_irac_def app_py_try_stmt_def)

lemma app_py_try_body_valid:
  "app_py_passes_validation req pdf \<Longrightarrow>
   app_py_try_body env req =
     (if str_strip (fst (app_py_extract_text_from_pdf env (data pdf))) = []
      then (Inr (Returns (error_json ''Could not read PDF content'', 400)),
            snd (app_py_extract_text_from_pdf env (data pdf)))
      else app_py_complete env
             (app_py_prompt (form_get req (py ''caseName'') (py ''Case''))
                (form_get req (py ''role'') (py ''student''))
                (fst (app_py_extract_text_from_pdf env (data pdf))))
             (snd (app_py_extract_text_from_pdf env (data pdf))))"
  by (simp add: app_py_passes_validation_def app_py_try_body_def request_files_def
      split: prod.splits)

lemma app_py_generate_irac_cases
  [case_names too_large no_file not_pdf unreadable raises no_choice no_content answer]:
  obtains
    (too_large) "request_too_large req"
      "app_py_generate_irac rest env req =
         ((error_json ''Failed to process request'', 500),
          [Print (py ''Error: '' @ too_large_text)])"
  | (no_file) "\<not> request_too_large req" "map_of (files req) (py ''pdf'') = None"
      "app_py_generate_irac rest env req = ((error_json ''No file provided'', 400), [])"
  | (not_pdf) pdf where "\<not> request_too_large req"
      "map_of (files req) (py ''pdf'') = Some pdf"
      "\<not> str_endswith (str_lower (filename pdf)) (py ''.pdf'')"
      "app_py_generate_irac rest env req = ((error_json ''File must be a PDF'', 400), [])"
  | (unreadable) pdf where "app_py_passes_validation req pdf"
      "str_strip (fst (app_py_extract_text_from_pdf env (data pdf))) = []"
      "app_py_generate_irac rest env req =
         ((error_json ''Could not read PDF content'', 400),
          snd (app_py_extract_text_from_pdf env (data pdf)))"
  | (raises) pdf doc evs e where "app_py_passes_validation req pdf"
      "app_py_extract_text_from_pdf env (data pdf) = (doc, evs)" "str_strip doc \<noteq> []"
      "chat_completion env (app_py_chat_request
         (app_py_prompt (form_get req (py ''caseName'') (py ''Case''))
            (form_get req (py ''role'') (py ''student'')) doc)) = Inl e"
      "app_py_generate_irac rest env req =
         ((error_json ''Failed to process request'', 500),
          evs @ [CompletionCall (app_py_chat_request
                   (app_py_prompt (form_get req (py ''caseName'') (py ''Case''))
                      (form_get req (py ''role'') (py ''student'')) doc)),
                 Print (py ''Error: '' @ str_exn e)])"
  | (no_choice) pdf doc evs resp where "app_py_passes_validation req pdf"
      "app_py_extract_text_from_pdf env (data pdf) = (doc, evs)" "str_strip doc \<noteq> []"
      "chat_completion env (app_py_chat_request
         (app_py_prompt (form_get req (py ''caseName'') (py ''Case''))
            (form_get req (py ''role'') (py ''student'')) doc)) = Inr resp"
      "choices resp = []"
      "app_py_generate_irac rest env req =
         ((error_json ''Failed to process request'', 500),
          evs @ [CompletionCall (app_py_chat_request
                   (app_py_prompt (form_get req (py ''caseName'') (py ''Case''))
                      (form_get req (py ''role'') (py ''student'')) doc)),
                 Print (py ''Error: '' @ py ''list index out of range'')])"
  | (no_content) pdf doc evs resp others where "app_py_passes_validation req pdf"
      "app_py_extract_text_from_pdf env (data pdf) = (doc, evs)" "str_strip doc \<noteq> []"
      "chat_completion env (app_py_chat_request
         (app_py_prompt (form_get req (py ''caseName'') (py ''Case''))
            (form_get req (py ''role'') (py ''student'')) doc)) = Inr resp"
      "choices resp = None # others"
      "app_py_generate_irac rest env req =
         ((error_json ''Failed to process request'', 500),
          evs @ [CompletionCall (app_py_chat_request
                   (app_py_prompt (form_get req (py ''caseName'') (py ''Case''))
                      (form_get req (py ''role'') (py ''student'')) doc)),
                 Print (py ''Error: '' @ none_strip_text)])"
  | (answer) pdf doc evs resp s others where "app_py_passes_validation req pdf"
      "app_py_extract_text_from_pdf env (data pdf) = (doc, evs)" "str_strip doc \<noteq> []"
      "chat_completion env (app_py_chat_request
         (app_py_prompt (form_get req (py ''caseName'') (py ''Case''))
            (form_get req (py ''role'') (py ''student'')) doc)) = Inr resp"
      "choices resp = Some s # others"
      "app_py_generate_irac rest env req =
         ((JObj [(py ''summary'', JStr (str_strip s))], 200),
          evs @ [CompletionCall (app_py_chat_request
                   (app_py_prompt (form_get req (py ''caseName'') (py ''Case''))
                      (form_get req (py ''role'') (py ''student'')) doc))])"
proof (cases "request_too_large req")
  case True
  then have "app_py_try_body env req = (Inl (Exn RequestEntityTooLarge too_large_text), [])"
    by (simp add: app_py_try_body_def request_files_def)
  from app_py_generate_irac_of_body(2) [OF this] too_large [OF True] show ?thesis by simp
next
  case False
  then have le: "\<not> request_too_large req" by simp
  show ?thesis
  proof (cases "map_of (files req) (py ''pdf'')")
    case None
    with le have "app_py_try_body env req = (Inr (Returns (error_json ''No file provided'', 400)), [])"
      by (simp add: app_py_try_body_def request_files_def)
    from app_py_generate_irac_of_body(1) [OF this] no_file [OF le None] show ?thesis by simp
  next
    case (Some pdf)
    show ?thesis
    proof (cases "str_endswith (str_lower (filename pdf)) (py ''.pdf'')")
      case False
      with le Some have "app_py_try_body env req = (Inr (Returns (error_json ''File must be a PDF'', 400)), [])"
        by (simp add: app_py_try_body_def request_files_def)
      from app_py_generate_irac_of_body(1) [OF this] not_pdf [OF le Some False] show ?thesis by simp
    next
      case True
      with le Some have valid: "app_py_passes_validation req pdf"
        by (simp add: app_py_passes_validation_def)
      note body = app_py_try_body_valid [OF valid, of env]
      obtain doc evs where ex: "app_py_extract_text_from_pdf env (data pdf) = (doc, evs)"
        by (cases "app_py_extract_text_from_pdf env (data pdf)")
      show ?thesis
      proof (cases "str_strip doc = []")
        case True
        with body ex have "app_py_try_body env req =
            (Inr (Returns (error_json ''Could not read PDF content'', 400)), evs)"
          by simp
        from app_py_generate_irac_of_body(1) [OF this] unreadable [OF valid] True ex
        show ?thesis by simp
      next
        case False
        let ?rq = "app_py_chat_request
           (app_py_prompt (form_get req (py ''caseName'') (py ''Case''))
              (form_get req (py ''role'') (py ''student'')) doc)"
        from body ex False have body': "app_py_try_body env req =
            app_py_complete env (app_py_prompt (form_get req (py ''caseName'') (py ''Case''))
              (form_get req (py ''role'') (py ''student'')) doc) evs"
          by simp
        show ?thesis
        proof (cases "chat_completion env ?rq")
          case (Inl e)
          then have "app_py_try_body env req = (Inl e, evs @ [CompletionCall ?rq])"
            by (simp add: body' app_py_complete_def Let_def)
          from app_py_generate_irac_of_body(2) [OF this] raises [OF valid ex False Inl]
          show ?thesis by simp
        next
          case (Inr resp)
          show ?thesis
          proof (cases "choices resp")
            case Nil
            with Inr have "app_py_try_body env req =
                (Inl (Exn IndexError (py ''list index out of range'')), evs @ [CompletionCall ?rq])"
              by (simp add: body' app_py_complete_def Let_def)
            from app_py_generate_irac_of_body(2) [OF this] no_choice [OF valid ex False Inr Nil]
            show ?thesis by simp
          next
            case (Cons content others)
            show ?thesis
            proof (cases content)
              case None
              with Inr Cons have "app_py_try_body env req =
                  (Inl (Exn AttributeError (none_strip_text)),
                   evs @ [CompletionCall ?rq])"
                by (simp add: body' app_py_complete_def Let_def)
              from app_py_generate_irac_of_body(2) [OF this]
                no_content [OF valid ex False Inr Cons [unfolded None]]
              show ?thesis by simp
            next
              case (Some s)
              with Inr Cons have "app_py_try_body env req =
                  (Inr (Returns (JObj [(py ''summary'', JStr (str_strip s))], 200)),
                   evs @ [CompletionCall ?rq])"
                by (simp add: body' app_py_complete_def Let_def)
              from app_py_generate_irac_of_body(1) [OF this]
                answer [OF valid ex False Inr Cons [unfolded Some]]
              show ?thesis by simp
            qed
          qed
        qed
      qed
    qed
  qed
qed

lemma app_py_try_stmt_returns: "\<exists>r evs. app_py_try_stmt env req = (Returns r, evs)"
  by (auto simp: app_py_try_stmt_def app_py_try_body_def app_py_complete_def Let_def
      split: sum.splits option.splits list.splits prod.splits)

section \<open>The statements after the \<open>try\<close> of \<open>app.py\<close>\<close>

lemma app_py_generate_irac_is_try:
  "app_py_try_stmt env req = (Returns r, evs) \<Longrightarrow> app_py_generate_irac rest env req = (r, evs)"
  by (simp add: app_py_generate_irac_def)

lemma app_py_smith_text:
  "app_py_extract_text_from_pdf smith_env d
     = (py ''Smith v. Jones, 123 U.S. 456 (2020).'', [ExtractCall d])"
  by (simp add: app_py_extract_text_from_pdf_def smith_env_def)

lemma app_py_smith_answer:
  "fst (app_py_generate_irac rest smith_env app_py_request)
     = (JObj [(py ''summary'', JStr (str_strip (py ''## ISSUE'')))], 200)"
proof -
  have body: "app_py_try_body smith_env app_py_request =
      app_py_complete smith_env
        (app_py_prompt (form_get app_py_request (py ''caseName'') (py ''Case''))
           (form_get app_py_request (py ''role'') (py ''student''))
           (py ''Smith v. Jones, 123 U.S. 456 (2020).''))
        [ExtractCall (data smith_upload)]"
    by (simp add: app_py_try_body_valid [OF app_py_request_valid] app_py_smith_text
        smith_text_not_blank)
  have chat: "chat_completion smith_env rq = Inr smith_answer" for rq
    by (simp add: smith_env_def)
  have ch: "choices smith_answer = [Some (py ''## ISSUE'')]"
    by (simp add: smith_answer_def)
  have "\<exists>evs. app_py_try_body smith_env app_py_request =
      (Inr (Returns (JObj [(py ''summary'', JStr (str_strip (py ''## ISSUE'')))], 200)), evs)"
    by (simp add: body app_py_complete_def Let_def chat ch)
  then show ?thesis
    using app_py_generate_irac_of_body(1) by fastforce
qed

text \<open>
  Claim C9. In \<open>app.py\<close>, every execution of \<open>generate_irac\<close> ends inside the
  \<open>try\<close> statement of lines 133--174: its body returns a response, or its
  \<open>except\<close> clause returns the 500. The statement never falls through, so what
  the handler does is the same whatever stands after it: lines 176--345 never run.
\<close>

theorem app_py_rest_never_runs:
  "(\<exists>r evs. app_py_try_stmt env req = (Returns r, evs)
        \<and> app_py_generate_irac rest env req = (r, evs))
   \<and> fst (app_py_try_stmt env req) \<noteq> Falls_through
   \<and> app_py_generate_irac rest env req = app_py_generate_irac rest' env req
   \<and> (case fst (app_py_try_body env req) of
         Inr k \<Rightarrow> k = Returns (fst (app_py_generate_irac rest env req))
       | Inl e \<Rightarrow> fst (app_py_generate_irac rest env req)
                  = (error_json ''Failed to process request'', 500))"
proof -
  obtain r evs where ret: "app_py_try_stmt env req = (Returns r, evs)"
    using app_py_try_stmt_returns by blast
  have same: "app_py_generate_irac rest env req = (r, evs)"
    "app_py_generate_irac rest' env req = (r, evs)"
    using ret by (simp_all add: app_py_generate_irac_is_try)
  have body: "(case fst (app_py_try_body env req) of
         Inr k \<Rightarrow> k = Returns r
       | Inl e \<Rightarrow> r = (error_json ''Failed to process request'', 500))"
    using ret by (auto simp: app_py_try_stmt_def split: prod.splits sum.splits)
  show ?thesis
    using ret same body by (simp split: sum.splits)
qed

theorem app_py_rest_witness:
  "app_py_generate_irac some_rest smith_env app_py_request
     = app_py_generate_irac other_rest smith_env app_py_request
   \<and> fst (app_py_generate_irac some_rest smith_env app_py_request)
     = (JObj [(py ''summary'', JStr (str_strip (py ''## ISSUE'')))], 200)
   \<and> some_rest smith_env app_py_request \<noteq> other_rest smith_env app_py_request"
  using app_py_rest_never_runs [of smith_env app_py_request some_rest other_rest]
  by (simp add: app_py_smith_answer some_rest_def other_rest_def)

section \<open>An authentication failure of the completion service\<close>

text \<open>
  Claim C3 at a concrete request: the completion client raises
  \<open>AuthenticationError\<close>. Both handlers answer with status 500 and their general
  error message; the body has an \<open>error\<close> field and neither an \<open>analysis\<close> nor a
  \<open>summary\<close> field.
\<close>

theorem authentication_failure_gives_500:
  "chat_completion auth_failure_env rq = Inl (Exn AuthenticationError (py ''Incorrect API key provided''))
   \<and> response (generate_irac stub_md5 auth_failure_env smith_request [])
       = (error_json ''Error generating analysis. Please try again later.'', 500)
   \<and> fst (app_py_generate_irac rest auth_failure_env app_py_request)
       = (error_json ''Failed to process request'', 500)
   \<and> json_get (error_json ''Error generating analysis. Please try again later.'') (py ''analysis'') = None
   \<and> json_get (error_json ''Failed to process request'') (py ''summary'') = None"
proof -
  have chat: "chat_completion auth_failure_env rq
      = Inl (Exn AuthenticationError (py ''Incorrect API key provided''))" for rq
    by (simp add: auth_failure_env_def)
  have read: "read_pdf auth_failure_env d = Inr (py ''Smith v. Jones, 123 U.S. 456 (2020).'')" for d
    by (simp add: read_pdf_def auth_failure_env_def smith_env_def)
  have miss: "\<not> cache_contains [] (t_contains auth_failure_env)
      (cache_key_of stub_md5 smith_upload smith_request)"
    by (simp add: cache_contains_def)
  have new: "response (generate_irac stub_md5 auth_failure_env smith_request [])
       = (error_json ''Error generating analysis. Please try again later.'', 500)"
    using generate_irac_raises [OF smith_valid miss read smith_text_not_blank chat] by simp
  have ex: "app_py_extract_text_from_pdf auth_failure_env d
     = (py ''Smith v. Jones, 123 U.S. 456 (2020).'', [ExtractCall d])" for d
    by (simp add: app_py_extract_text_from_pdf_def auth_failure_env_def smith_env_def)
  have "\<exists>e evs. app_py_try_body auth_failure_env app_py_request = (Inl e, evs)"
    by (simp add: app_py_try_body_valid [OF app_py_request_valid] ex smith_text_not_blank
        app_py_complete_def Let_def chat)
  then have old: "fst (app_py_generate_irac rest auth_failure_env app_py_request)
       = (error_json ''Failed to process request'', 500)"
    using app_py_generate_irac_of_body(2) by fastforce
  show ?thesis
    using chat new old by (simp add: error_json_fields)
qed

section \<open>The prompt\<close>

lemma str_strip_empty_iff: "str_strip s = [] \<longleftrightarrow> (\<forall>c \<in> set s. isspace c)"
proof
  assume "str_strip s = []"
  then have "\<forall>c \<in> set (dropWhile isspace s). isspace c"
    by (simp add: str_strip_def dropWhile_eq_Nil_conv)
  then have "dropWhile isspace s = []"
    by (metis hd_dropWhile list.set_sel(1))
  then show "\<forall>c \<in> set s. isspace c"
    by (simp add: dropWhile_eq_Nil_conv)
next
  assume "\<forall>c \<in> set s. isspace c"
  then have blank: "dropWhile isspace s = []"
    by (simp add: dropWhile_eq_Nil_conv)
  show "str_strip s = []"
    unfolding str_strip_def blank by simp
qed

lemma hd_py_append: "hd (py (c # cs) @ others) = of_char c"
  by (simp add: py_def)

lemma prompts_differ: "law_student_prompt case_name doc \<noteq> paralegal_prompt case_name' doc'"
proof
  assume eq: "law_student_prompt case_name doc = paralegal_prompt case_name' doc'"
  have "hd (law_student_prompt case_name doc) = 0x47"
    unfolding law_student_prompt_def by (subst hd_py_append) simp
  moreover have "hd (paralegal_prompt case_name' doc') = 0x43"
    unfolding paralegal_prompt_def by (subst hd_py_append) simp
  ultimately show False
    using eq by simp
qed

lemma messages_new:
  "map snd (cr_messages (chat_request_new p))
     = [py ''You are a legal expert providing case analysis.'', p]"
  by (simp add: chat_request_new_def)

lemma generate_irac_prompt:
  assumes "passes_validation req upl"
    and "\<not> cache_contains c (t_contains env) (cache_key_of md5 upl req)"
    and "read_pdf env (data upl) = Inr doc" and "str_strip doc \<noteq> []"
  shows "prompts_sent (events (generate_irac md5 env req c))
     = [py ''You are a legal expert providing case analysis.'',
        build_prompt (role_of req) (case_name_of req) doc]"
proof (cases "chat_completion env (chat_request_new (build_prompt (role_of req) (case_name_of req) doc))")
  case (Inl e)
  show ?thesis
    by (simp add: generate_irac_raises [OF assms Inl] messages_new)
next
  case (Inr resp)
  have "generate_irac_try md5 env req c =
      call_openai env c (cache_key_of md5 upl req) (build_prompt (role_of req) (case_name_of req) doc)
        [ExtractCall (data upl)]"
    using assms by (simp add: generate_irac_miss cache_miss_text)
  then show ?thesis
    using Inr
    by (cases "choices resp")
      (simp_all add: generate_irac_def call_openai_def Let_def messages_new)
qed

lemma student_request_facts:
  "passes_validation student_request smith_upload"
  "role_of student_request = py ''student''"
  "role_of smith_request = py ''law_student''"
  by (simp_all add: passes_validation_def request_too_large_def student_request_def
      smith_request_def smith_upload_def MAX_CONTENT_LENGTH_def allowed_smith role_of_def form_get_def)

lemma role_spellings: "py ''paralegal'' \<noteq> py ''law_student''" "py ''student'' \<noteq> py ''law_student''"
  by (simp_all add: py_def)

text \<open>
  Claim C7, as stated, fails: \<open>app_new.py\<close> compares the role with \<open>'law_student'\<close>
  only, so the spelling \<open>student\<close> selects the paralegal template, which is not
  the student one.
\<close>

theorem student_spelling_gets_paralegal_template:
  "role_of student_request = py ''student''
   \<and> prompts_sent (events (generate_irac stub_md5 smith_env student_request []))
       = [py ''You are a legal expert providing case analysis.'',
          paralegal_prompt (case_name_of student_request) (py ''Smith v. Jones, 123 U.S. 456 (2020).'')]
   \<and> paralegal_prompt (case_name_of student_request) (py ''Smith v. Jones, 123 U.S. 456 (2020).'')
       \<noteq> law_student_prompt (case_name_of student_request) (py ''Smith v. Jones, 123 U.S. 456 (2020).'')"
proof -
  have miss: "\<not> cache_contains [] (t_contains smith_env) (cache_key_of stub_md5 smith_upload student_request)"
    by (simp add: cache_contains_def)
  show ?thesis
    using generate_irac_prompt [OF student_request_facts(1) miss smith_read smith_text_not_blank]
      prompts_differ [of "case_name_of student_request" "py ''Smith v. Jones, 123 U.S. 456 (2020).''"
        "case_name_of student_request" "py ''Smith v. Jones, 123 U.S. 456 (2020).''"]
    by (simp add: student_request_facts(2) build_prompt_def role_spellings)
qed

text \<open>
  Claim C7, amended. In \<open>app_new.py\<close> the role is the form field \<open>role\<close>, or
  \<open>law_student\<close> when the field is absent. The prompt sent to the completion
  service is the verbose student template exactly when the role is \<open>law_student\<close>;
  for \<open>paralegal\<close> and for every other value, the spelling \<open>student\<close> included,
  it is the condensed paralegal template. The two templates differ for all
  arguments.
\<close>

theorem role_selects_template:
  "(passes_validation req upl \<and> \<not> cache_contains c (t_contains env) (cache_key_of md5 upl req)
      \<and> read_pdf env (data upl) = Inr doc \<and> str_strip doc \<noteq> []
     \<longrightarrow> prompts_sent (events (generate_irac md5 env req c))
           = [py ''You are a legal expert providing case analysis.'',
              if role_of req = py ''law_student'' then law_student_prompt (case_name_of req) doc
              else paralegal_prompt (case_name_of req) doc])
   \<and> (map_of (form req) (py ''role'') = None \<longrightarrow> role_of req = py ''law_student'')
   \<and> (map_of (form req) (py ''role'') = Some r \<longrightarrow> role_of req = r)
   \<and> py ''paralegal'' \<noteq> py ''law_student''
   \<and> py ''student'' \<noteq> py ''law_student''
   \<and> law_student_prompt case_name doc' \<noteq> paralegal_prompt case_name' doc''"
proof (intro conjI impI)
  assume "passes_validation req upl \<and> \<not> cache_contains c (t_contains env) (cache_key_of md5 upl req)
      \<and> read_pdf env (data upl) = Inr doc \<and> str_strip doc \<noteq> []"
  then show "prompts_sent (events (generate_irac md5 env req c))
           = [py ''You are a legal expert providing case analysis.'',
              if role_of req = py ''law_student'' then law_student_prompt (case_name_of req) doc
              else paralegal_prompt (case_name_of req) doc]"
    using generate_irac_prompt [of req upl c env md5 doc] by (simp add: build_prompt_def)
next
  assume "map_of (form req) (py ''role'') = None"
  then show "role_of req = py ''law_student''"
    by (simp add: role_of_def form_get_def)
next
  assume "map_of (form req) (py ''role'') = Some r"
  then show "role_of req = r"
    by (simp add: role_of_def form_get_def)
qed (rule role_spellings prompts_differ)+

theorem role_selects_template_witness:
  "prompts_sent (events (generate_irac stub_md5 smith_env smith_request []))
     = [py ''You are a legal expert providing case analysis.'',
        law_student_prompt (case_name_of smith_request) (py ''Smith v. Jones, 123 U.S. 456 (2020).'')]
   \<and> prompts_sent (events (generate_irac stub_md5 smith_env student_request []))
     = [py ''You are a legal expert providing case analysis.'',
        paralegal_prompt (case_name_of student_request) (py ''Smith v. Jones, 123 U.S. 456 (2020).'')]
   \<and> role_of smith_request = py ''law_student''
   \<and> role_of student_request = py ''student''"
proof -
  have miss: "\<not> cache_contains [] (t_contains smith_env) k" for k
    by (simp add: cache_contains_def)
  show ?thesis
    using role_selects_template [of smith_request smith_upload "[]" smith_env stub_md5
        "py ''Smith v. Jones, 123 U.S. 456 (2020).''"]
      role_selects_template [of student_request smith_upload "[]" smith_env stub_md5
        "py ''Smith v. Jones, 123 U.S. 456 (2020).''"]
      smith_valid student_request_facts smith_read smith_text_not_blank miss
    by simp
qed

section \<open>The length of the document text in the prompt\<close>

lemma long_text_facts:
  "length long_text = 4001"
  "str_strip long_text \<noteq> []"
  "read_pdf long_text_env d = Inr long_text"
proof -
  show "length long_text = 4001"
    by (simp only: long_text_def length_replicate)
  have "(0x23::nat) \<in> set long_text"
    by (simp only: long_text_def set_replicate_conv_if) simp
  moreover have "\<not> isspace 0x23"
    by (simp add: isspace_def)
  ultimately show "str_strip long_text \<noteq> []"
    unfolding str_strip_empty_iff by blast
  show "read_pdf long_text_env d = Inr long_text"
    by (simp add: read_pdf_def long_text_env_def)
qed

text \<open>
  Claim C2 at a concrete request to \<open>app_new.py\<close>: the document text has 4001
  characters, more than any budget of 3000 to 4000, and the prompt sent to the
  completion service contains all of it.
\<close>

theorem long_text_sent_whole:
  "read_pdf long_text_env (data smith_upload) = Inr long_text
   \<and> length long_text = 4001
   \<and> prompts_sent (events (generate_irac stub_md5 long_text_env smith_request []))
       = [py ''You are a legal expert providing case analysis.'',
          law_student_prompt (case_name_of smith_request) long_text]
   \<and> (\<exists>before after.
         law_student_prompt (case_name_of smith_request) long_text = before @ long_text @ after)"
proof -
  have miss: "\<not> cache_contains [] (t_contains long_text_env) (cache_key_of stub_md5 smith_upload smith_request)"
    by (simp add: cache_contains_def)
  have whole: "\<exists>before after.
      law_student_prompt (case_name_of smith_request) long_text = before @ long_text @ after"
    unfolding law_student_prompt_def by (metis append.assoc)
  show ?thesis
    using generate_irac_prompt [OF smith_valid miss long_text_facts(3) long_text_facts(2)] whole
    by (simp add: long_text_facts student_request_facts(3) build_prompt_def)
qed

text \<open>
  In \<open>app.py\<close> the document text enters the prompt through \<open>case_text[:3000]\<close>:
  the prompt is the same for two texts with the same first 3000 characters, and
  its length is bounded whatever the length of the text.
\<close>

theorem app_py_prompt_truncates:
  "app_py_prompt case_name role doc = app_py_prompt case_name role (take 3000 doc)
   \<and> length (app_py_prompt case_name role doc) \<le> length case_name + length role + 3000 + 200"
  by (simp add: app_py_prompt_def py_def)

section \<open>Error responses\<close>

lemma generate_irac_blank:
  assumes "passes_validation req upl"
    and "\<not> cache_contains c (t_contains env) (cache_key_of md5 upl req)"
    and "read_pdf env (data upl) = Inr doc" and "str_strip doc = []"
  shows "response (generate_irac md5 env req c)
     = (error_json ''The uploaded PDF appears to be empty or could not be read'', 400)"
  using assms
  by (simp add: generate_irac_of_try generate_irac_miss cache_miss_blank)

lemma generate_irac_no_choice:
  assumes "passes_validation req upl"
    and "\<not> cache_contains c (t_contains env) (cache_key_of md5 upl req)"
    and "read_pdf env (data upl) = Inr doc" and "str_strip doc \<noteq> []"
    and "chat_completion env (chat_request_new (build_prompt (role_of req) (case_name_of req) doc)) = Inr resp"
    and "choices resp = []"
  shows "response (generate_irac md5 env req c)
     = (error_json ''Error generating analysis. Please try again later.'', 500)"
  using assms
  by (simp add: generate_irac_of_try generate_irac_miss cache_miss_text call_openai_no_choice)

lemma with_exception_texts_fields:
  "t_contains (with_exception_texts g env) = t_contains env"
  "t_getitem (with_exception_texts g env) = t_getitem env"
  "t_setitem (with_exception_texts g env) = t_setitem env"
  "chat_completion (with_exception_texts g env) rq
     = (case chat_completion env rq of Inl e \<Rightarrow> Inl (map_exn g e) | Inr resp \<Rightarrow> Inr resp)"
  "pdf_reader (with_exception_texts g env) d
     = (case pdf_reader env d of
          Inl e \<Rightarrow> Inl (map_exn g e)
        | Inr pages \<Rightarrow> Inr (map (map_page g) pages))"
  by (simp_all add: with_exception_texts_def)

lemma concat_pages_map_page:
  "concat_pages (map (map_page g) pages) acc
     = (case concat_pages pages acc of Inl e \<Rightarrow> Inl (map_exn g e) | Inr doc \<Rightarrow> Inr doc)"
  by (induction pages acc rule: concat_pages.induct) (simp_all add: map_page_def)

lemma page_texts_map_page:
  "page_texts (map (map_page g) pages)
     = (case page_texts pages of Inl e \<Rightarrow> Inl (map_exn g e) | Inr texts \<Rightarrow> Inr texts)"
  by (induction pages rule: page_texts.induct) (simp_all add: map_page_def split: sum.splits)

lemma read_pdf_with_exception_texts:
  "read_pdf (with_exception_texts g env) d
     = (case read_pdf env d of Inl e \<Rightarrow> Inl (map_exn g e) | Inr doc \<Rightarrow> Inr doc)"
  by (simp add: read_pdf_def with_exception_texts_fields concat_pages_map_page split: sum.splits)

lemma app_py_extract_with_exception_texts:
  "fst (app_py_extract_text_from_pdf (with_exception_texts g env) d)
     = fst (app_py_extract_text_from_pdf env d)"
  by (simp add: app_py_extract_text_from_pdf_def with_exception_texts_fields page_texts_map_page
      split: sum.splits)

lemma generate_irac_error_message:
  "snd (response (generate_irac md5 env req c)) \<noteq> 200 \<Longrightarrow>
   \<exists>m \<in> set error_messages. fst (response (generate_irac md5 env req c)) = error_json m"
  by (cases rule: generate_irac_cases [of req md5 env c]) (simp_all add: error_messages_def)

lemma generate_irac_same_response:
  "response (generate_irac md5 (with_exception_texts g env) req c) = response (generate_irac md5 env req c)"
proof -
  let ?env = "with_exception_texts g env"
  note f = with_exception_texts_fields
  show ?thesis
  proof (cases rule: generate_irac_cases [of req md5 env c])
    case too_large
    then show ?thesis by (simp add: generate_irac_too_large)
  next
    case no_file
    then show ?thesis by (simp add: generate_irac_no_file)
  next
    case (not_allowed upl)
    then show ?thesis by (simp add: generate_irac_not_allowed)
  next
    case (hit upl v expires)
    then show ?thesis
      using generate_irac_hit [of req upl c md5 v expires ?env] by (simp add: f)
  next
    case (hit_expired upl v expires)
    then show ?thesis
      using generate_irac_hit_expired [of req upl c md5 v expires ?env] by (simp add: f)
  next
    case (failed upl e)
    then show ?thesis
      using generate_irac_failed [of req upl c ?env md5 "map_exn g e"]
      by (simp add: f read_pdf_with_exception_texts)
  next
    case (blank upl doc)
    then show ?thesis
      using generate_irac_blank [of req upl c ?env md5 doc]
      by (simp add: f read_pdf_with_exception_texts)
  next
    case (raises upl doc e)
    then show ?thesis
      using generate_irac_raises [of req upl c ?env md5 doc "map_exn g e"]
      by (simp add: f read_pdf_with_exception_texts)
  next
    case (no_choice upl doc resp)
    then show ?thesis
      using generate_irac_no_choice [of req upl c ?env md5 doc resp]
      by (simp add: f read_pdf_with_exception_texts)
  next
    case (answer upl doc resp content others)
    then show ?thesis
      using generate_irac_answer [of req upl c ?env md5 doc resp content others]
      by (simp add: f read_pdf_with_exception_texts)
  qed
qed

lemma app_py_error_message:
  "snd (fst (app_py_generate_irac rest env req)) \<noteq> 200 \<Longrightarrow>
   \<exists>m \<in> set app_py_error_messages. fst (fst (app_py_generate_irac rest env req)) = error_json m"
  by (cases rule: app_py_generate_irac_cases [of req rest env]) (simp_all add: app_py_error_messages_def)

lemma app_py_response:
  "fst (app_py_generate_irac rest env req) =
     (if request_too_large req then (error_json ''Failed to process request'', 500)
      else case map_of (files req) (py ''pdf'') of
        None \<Rightarrow> (error_json ''No file provided'', 400)
      | Some pdf \<Rightarrow>
          if \<not> str_endswith (str_lower (filename pdf)) (py ''.pdf'')
          then (error_json ''File must be a PDF'', 400)
          else if str_strip (fst (app_py_extract_text_from_pdf env (data pdf))) = []
          then (error_json ''Could not read PDF content'', 400)
          else (case chat_completion env (app_py_chat_request
                   (app_py_prompt (form_get req (py ''caseName'') (py ''Case''))
                      (form_get req (py ''role'') (py ''student''))
                      (fst (app_py_extract_text_from_pdf env (data pdf))))) of
                  Inl e \<Rightarrow> (error_json ''Failed to process request'', 500)
                | Inr resp \<Rightarrow>
                    (case choices resp of
                       [] \<Rightarrow> (error_json ''Failed to process request'', 500)
                     | None # others \<Rightarrow> (error_json ''Failed to process request'', 500)
                     | Some s # others \<Rightarrow> (JObj [(py ''summary'', JStr (str_strip s))], 200))))"
  by (cases rule: app_py_generate_irac_cases [of req rest env])
    (auto simp: app_py_passes_validation_def)

lemma app_py_same_response:
  "fst (app_py_generate_irac rest (with_exception_texts g env) req)
     = fst (app_py_generate_irac rest env req)"
  unfolding app_py_response
  by (simp add: app_py_extract_with_exception_texts with_exception_texts_fields
      split: option.splits sum.splits list.splits)

text \<open>
  Claim C8. Every response of \<open>generate_irac\<close> with a status other than 200, in
  \<open>app_new.py\<close> and in \<open>app.py\<close>, has a body \<open>{"error": m}\<close> where \<open>m\<close> is one
  of the fixed messages of the handler; and the response does not depend on the
  text of the exceptions raised by the PDF library or the completion client, which
  only reaches the log.
\<close>

theorem error_responses_hide_exception_text:
  "(snd (response (generate_irac md5 env req c)) \<noteq> 200
      \<longrightarrow> (\<exists>m \<in> set error_messages. fst (response (generate_irac md5 env req c)) = error_json m))
   \<and> response (generate_irac md5 (with_exception_texts g env) req c)
       = response (generate_irac md5 env req c)
   \<and> (snd (fst (app_py_generate_irac rest env req)) \<noteq> 200
      \<longrightarrow> (\<exists>m \<in> set app_py_error_messages.
            fst (fst (app_py_generate_irac rest env req)) = error_json m))
   \<and> fst (app_py_generate_irac rest (with_exception_texts g env) req)
       = fst (app_py_generate_irac rest env req)
   \<and> json_get (error_json msg) (py ''error'') = Some (JStr (py msg))"
  using generate_irac_error_message [of md5 env req c] generate_irac_same_response [of md5 g env req c]
    app_py_error_message [of rest env req] app_py_same_response [of rest g env req]
  by (simp add: error_json_fields)

theorem error_responses_witness:
  "response (generate_irac stub_md5 (with_exception_texts (\<lambda>m. py ''Traceback'') corrupt_later)
       smith_request [])
     = (error_json ''Error processing PDF file'', 400)
   \<and> response (generate_irac stub_md5 corrupt_later smith_request [])
     = (error_json ''Error processing PDF file'', 400)
   \<and> fst (app_py_generate_irac some_rest (with_exception_texts (\<lambda>m. py ''Traceback'') auth_failure_env)
       app_py_request)
     = (error_json ''Failed to process request'', 500)"
proof -
  have bad: "read_pdf corrupt_later d = Inl (Exn OtherError (py ''EOF marker not found''))" for d
    by (simp add: read_pdf_def corrupt_later_def)
  have miss: "\<not> cache_contains [] (t_contains corrupt_later) (cache_key_of stub_md5 smith_upload smith_request)"
    by (simp add: cache_contains_def)
  have new: "response (generate_irac stub_md5 corrupt_later smith_request [])
     = (error_json ''Error processing PDF file'', 400)"
    by (simp add: generate_irac_failed [OF smith_valid miss bad])
  have chat: "chat_completion auth_failure_env rq
      = Inl (Exn AuthenticationError (py ''Incorrect API key provided''))" for rq
    by (simp add: auth_failure_env_def)
  have ex: "app_py_extract_text_from_pdf auth_failure_env d
     = (py ''Smith v. Jones, 123 U.S. 456 (2020).'', [ExtractCall d])" for d
    by (simp add: app_py_extract_text_from_pdf_def auth_failure_env_def smith_env_def)
  have "\<exists>e evs. app_py_try_body auth_failure_env app_py_request = (Inl e, evs)"
    by (simp add: app_py_try_body_valid [OF app_py_request_valid] ex smith_text_not_blank
        app_py_complete_def Let_def chat)
  then have old: "fst (app_py_generate_irac some_rest auth_failure_env app_py_request)
       = (error_json ''Failed to process request'', 500)"
    using app_py_generate_irac_of_body(2) by fastforce
  show ?thesis
    using error_responses_hide_exception_text
      [of stub_md5 corrupt_later smith_request "[]" "\<lambda>m. py ''Traceback''" some_rest]
      error_responses_hide_exception_text
      [of stub_md5 auth_failure_env app_py_request "[]" "\<lambda>m. py ''Traceback''" some_rest]
      new old
    by simp
qed

end
